theory Spec2Isabelle
  imports Main "HOL-Library.Word"
begin

unbundle bit_operations_syntax

section \<open>Values of the program\<close>

text \<open>
  A \<^verbatim>\<open>Buffer\<close> is a list of bytes. A JavaScript \<^verbatim>\<open>number\<close> that holds an integer and a
  \<^verbatim>\<open>bigint\<close> are both \<^typ>\<open>int\<close>: neither is bounded by the width of the wire field it
  ends up in, and the \<^verbatim>\<open>DataView\<close> setters reduce the value modulo the width when they
  write it. Fractions and NaN are outside the model.

  A JavaScript string is represented by its UTF-8 encoding: \<^verbatim>\<open>Buffer.from(s, "utf8")\<close> is
  then the identity, \<^verbatim>\<open>Buffer.byteLength(s, "utf8")\<close> is the length of the list, and
  \<^verbatim>\<open>s.length === 0\<close> holds exactly for the empty list. Strings with unpaired
  surrogates have no such representation and are outside the model. The decoder
  \<^verbatim>\<open>buf.toString("utf8")\<close> belongs to the runtime: it is the identity on well-formed
  UTF-8 and substitutes U+FFFD elsewhere. The deserializers take it as the parameter
  \<open>dec\<close>.
\<close>

type_synonym byte = "8 word"
type_synonym buffer = "byte list"
type_synonym utf8 = "byte list"

datatype error =
    InvalidHeaderSize        \<comment> \<open>"invalid header size"\<close>
  | InvalidVersion           \<comment> \<open>"invalid version"\<close>
  | PayloadTooLarge          \<comment> \<open>"payload too large"\<close>
  | ReservedNonZero          \<comment> \<open>"reserved field must be zero"\<close>
  | InvalidRequestSize       \<comment> \<open>"invalid request size"\<close>
  | InvalidResponseSize      \<comment> \<open>"invalid response size"\<close>
  | InvalidMetricsSize       \<comment> \<open>"invalid metrics size"\<close>
  | InsufficientData         \<comment> \<open>"insufficient data"\<close>
  | InvalidProtocol          \<comment> \<open>"invalid protocol"\<close>
  | InvalidStatusCode        \<comment> \<open>"invalid status code"\<close>
  | EmptyString              \<comment> \<open>"string field cannot be empty"\<close>
  | InvalidLengthField       \<comment> \<open>"invalid length field"\<close>
  | StringTooLong            \<comment> \<open>"string exceeds maximum length"\<close>
  | UnexpectedEof            \<comment> \<open>"Stream ended before reading enough data"\<close>
  | StreamError nat          \<comment> \<open>an error object raised by a stream, a socket or the session\<close>
  | ServerError utf8         \<comment> \<open>"server error: ..."\<close>
  | UnexpectedHeaderType int \<comment> \<open>"unexpected header type: ..."\<close>
  | UnexpectedResponseStatus int \<comment> \<open>"unexpected response status: ..."\<close>
  | FailedToDial nat         \<comment> \<open>"failed to dial server: ..."\<close>

section \<open>proto.ts: constants and message classes\<close>

definition VERSION :: int where "VERSION = 16"
definition MAX_PAYLOAD_SIZE :: int where "MAX_PAYLOAD_SIZE = 1024 * 1024"
definition MAX_STRING_LENGTH :: int where "MAX_STRING_LENGTH = 4096"
definition HEADER_SIZE :: nat where "HEADER_SIZE = 12"
definition REQUEST_SIZE :: nat where "REQUEST_SIZE = 5"
definition RESPONSE_SIZE :: nat where "RESPONSE_SIZE = 13"
definition METRICS_SIZE :: nat where "METRICS_SIZE = 36"

definition MessageType_Request :: int where "MessageType_Request = 1"
definition MessageType_Response :: int where "MessageType_Response = 2"
definition MessageType_Access :: int where "MessageType_Access = 3"
definition MessageType_Ack :: int where "MessageType_Ack = 4"
definition MessageType_Metrics :: int where "MessageType_Metrics = 5"
definition MessageType_End :: int where "MessageType_End = 6"
definition MessageType_Error :: int where "MessageType_Error = 255"

definition FLAG_METRICS :: int where "FLAG_METRICS = 1"

definition ProtoType_HTTP :: int where "ProtoType_HTTP = 1"
definition ProtoType_TCP :: int where "ProtoType_TCP = 2"

definition StatusCode_OK :: int where "StatusCode_OK = 1"
definition StatusCode_NameTaken :: int where "StatusCode_NameTaken = 3"
definition StatusCode_UnsupportedProto :: int where "StatusCode_UnsupportedProto = 4"

record Header =
  version :: int
  type :: int
  flags :: int
  length' :: int
  reserved :: int

text \<open>The constructor \<^verbatim>\<open>new Header(type, length)\<close> with the field initialisers of the class.\<close>

definition new_Header :: "int \<Rightarrow> int \<Rightarrow> Header" where
  "new_Header t l = \<lparr>version = VERSION, type = t, flags = 0, length' = l, reserved = 0\<rparr>"

subsection \<open>Bitwise operators on numbers\<close>

text \<open>
  The operators \<^verbatim>\<open>&\<close>, \<^verbatim>\<open>|\<close> and \<^verbatim>\<open>~\<close> of JavaScript convert their operands with
  ToInt32 (reduction modulo \<open>2^32\<close>, read as two's complement), work on the 32 bits and
  return a signed 32-bit value.
\<close>

definition ToInt32 :: "int \<Rightarrow> 32 word" where
  "ToInt32 x = word_of_int x"

definition js_and :: "int \<Rightarrow> int \<Rightarrow> int" where
  "js_and a b = sint (ToInt32 a AND ToInt32 b)"

definition js_or :: "int \<Rightarrow> int \<Rightarrow> int" where
  "js_or a b = sint (ToInt32 a OR ToInt32 b)"

definition js_not :: "int \<Rightarrow> int" where
  "js_not a = sint (NOT (ToInt32 a))"

definition hasFlag :: "Header \<Rightarrow> int \<Rightarrow> bool" where
  "hasFlag h flag = (js_and (flags h) flag \<noteq> 0)"

definition setFlag :: "Header \<Rightarrow> int \<Rightarrow> Header" where
  "setFlag h flag = h\<lparr>flags := js_or (flags h) flag\<rparr>"

definition clearFlag :: "Header \<Rightarrow> int \<Rightarrow> Header" where
  "clearFlag h flag = h\<lparr>flags := js_and (flags h) (js_not flag)\<rparr>"

record Request =
  proto :: int
  nameLength :: int
  name :: utf8

definition new_Request :: "int \<Rightarrow> utf8 \<Rightarrow> Request" where
  "new_Request p n = \<lparr>proto = p, nameLength = int (length n), name = n\<rparr>"

record Response =
  status :: int
  ttlHours :: int
  domainLength :: int
  domain :: utf8

definition new_Response :: "int \<Rightarrow> int \<Rightarrow> utf8 \<Rightarrow> Response" where
  "new_Response s t d = \<lparr>status = s, ttlHours = t, domainLength = int (length d), domain = d\<rparr>"

record Metrics =
  ingress :: int
  egress :: int
  uptime :: int
  connectionCount :: int
  activeConnections :: int

subsection \<open>Buffer and DataView\<close>

text \<open>
  Big-endian fields. \<open>be_bytes n v\<close> are the \<open>n\<close> low-order bytes of \<open>v\<close>, most
  significant first, which is what \<^verbatim>\<open>setUint32\<close> (\<open>n = 4\<close>) and \<^verbatim>\<open>setBigUint64\<close> (\<open>n = 8\<close>)
  store; \<open>be_int\<close> reads such a field back.
\<close>

fun be_bytes :: "nat \<Rightarrow> int \<Rightarrow> buffer" where
  "be_bytes 0 v = []"
| "be_bytes (Suc n) v = be_bytes n (v div 256) @ [word_of_int v]"

definition be_int :: "buffer \<Rightarrow> int" where
  "be_int bs = foldl (\<lambda>acc b. acc * 256 + uint b) 0 bs"

definition alloc :: "nat \<Rightarrow> buffer" where
  "alloc n = replicate n 0"

text \<open>
  Writing a run of bytes at an offset. Every write of the serializers lies inside the
  buffer allocated just before, so the RangeError of an out-of-range \<^verbatim>\<open>DataView\<close> write
  never arises there; positions outside the buffer are left alone, as \<^verbatim>\<open>Buffer.copy\<close> does.
\<close>

fun write_at :: "buffer \<Rightarrow> nat \<Rightarrow> buffer \<Rightarrow> buffer" where
  "write_at buf off [] = buf"
| "write_at buf off (b # bs) = write_at (buf[off := b]) (Suc off) bs"

definition setUint8 :: "buffer \<Rightarrow> nat \<Rightarrow> int \<Rightarrow> buffer" where
  "setUint8 buf off v = write_at buf off (be_bytes 1 v)"

definition setUint32 :: "buffer \<Rightarrow> nat \<Rightarrow> int \<Rightarrow> buffer" where
  "setUint32 buf off v = write_at buf off (be_bytes 4 v)"

definition setBigUint64 :: "buffer \<Rightarrow> nat \<Rightarrow> int \<Rightarrow> buffer" where
  "setBigUint64 buf off v = write_at buf off (be_bytes 8 v)"

definition copy :: "buffer \<Rightarrow> buffer \<Rightarrow> nat \<Rightarrow> buffer" where
  "copy src buf off = write_at buf off src"

text \<open>
  Reads. The deserializers compare the length of the buffer with the size of the fixed
  part before any read, so the reads at fixed offsets are in range.
\<close>

definition subarray :: "buffer \<Rightarrow> nat \<Rightarrow> nat \<Rightarrow> buffer" where
  "subarray buf a b = take (b - a) (drop a buf)"

definition getUint8 :: "buffer \<Rightarrow> nat \<Rightarrow> int" where
  "getUint8 buf off = be_int (subarray buf off (off + 1))"

definition getUint32 :: "buffer \<Rightarrow> nat \<Rightarrow> int" where
  "getUint32 buf off = be_int (subarray buf off (off + 4))"

definition getBigUint64 :: "buffer \<Rightarrow> nat \<Rightarrow> int" where
  "getBigUint64 buf off = be_int (subarray buf off (off + 8))"

subsection \<open>Validators\<close>

definition validateHeader :: "Header \<Rightarrow> error + unit" where
  "validateHeader header =
     (if version header \<noteq> VERSION then Inl InvalidVersion
      else if length' header > MAX_PAYLOAD_SIZE then Inl PayloadTooLarge
      else if reserved header \<noteq> 0 then Inl ReservedNonZero
      else Inr ())"

definition validateRequest :: "Request \<Rightarrow> error + unit" where
  "validateRequest req =
     (if proto req \<noteq> ProtoType_HTTP \<and> proto req \<noteq> ProtoType_TCP then Inl InvalidProtocol
      else if name req = [] \<or> nameLength req = 0 then Inl EmptyString
      else if nameLength req \<noteq> int (length (name req)) then Inl InvalidLengthField
      else if nameLength req > MAX_STRING_LENGTH then Inl StringTooLong
      else Inr ())"

definition validateResponse :: "Response \<Rightarrow> error + unit" where
  "validateResponse resp =
     (if status resp \<noteq> StatusCode_OK \<and> status resp \<noteq> StatusCode_NameTaken
         \<and> status resp \<noteq> StatusCode_UnsupportedProto then Inl InvalidStatusCode
      else if status resp = StatusCode_OK then
        (if domain resp = [] \<or> domainLength resp = 0 then Inl EmptyString
         else if domainLength resp \<noteq> int (length (domain resp)) then Inl InvalidLengthField
         else if domainLength resp > MAX_STRING_LENGTH then Inl StringTooLong
         else Inr ())
      else Inr ())"

subsection \<open>Serializers and deserializers\<close>

definition serializeHeader :: "Header \<Rightarrow> error + buffer" where
  "serializeHeader header =
     (case validateHeader header of
        Inl e \<Rightarrow> Inl e
      | Inr _ \<Rightarrow>
          (let buf = alloc HEADER_SIZE;
               buf = setUint8 buf 0 (version header);
               buf = setUint8 buf 1 (type header);
               buf = setUint8 buf 2 (flags header);
               buf = setBigUint64 buf 3 (length' header);
               buf = setUint8 buf 11 (reserved header)
           in Inr buf))"

definition deserializeHeader :: "buffer \<Rightarrow> error + Header" where
  "deserializeHeader buf =
     (if length buf < HEADER_SIZE then Inl InvalidHeaderSize
      else
        (let header = new_Header (getUint8 buf 1) (getBigUint64 buf 3);
             header = header\<lparr>version := getUint8 buf 0\<rparr>;
             header = header\<lparr>flags := getUint8 buf 2\<rparr>;
             header = header\<lparr>reserved := getUint8 buf 11\<rparr>
         in case validateHeader header of
              Inl e \<Rightarrow> Inl e
            | Inr _ \<Rightarrow> Inr header))"

definition serializeRequest :: "Request \<Rightarrow> error + buffer" where
  "serializeRequest req =
     (case validateRequest req of
        Inl e \<Rightarrow> Inl e
      | Inr _ \<Rightarrow>
          (let nameBytes = name req;
               buf = alloc (REQUEST_SIZE + length nameBytes);
               buf = setUint8 buf 0 (proto req);
               buf = setUint32 buf 1 (nameLength req);
               buf = copy nameBytes buf REQUEST_SIZE
           in Inr buf))"

definition deserializeRequest :: "(buffer \<Rightarrow> utf8) \<Rightarrow> buffer \<Rightarrow> error + Request" where
  "deserializeRequest dec buf =
     (if length buf < REQUEST_SIZE then Inl InvalidRequestSize
      else
        (let proto = getUint8 buf 0;
             nameLength = nat (getUint32 buf 1);
             expectedSize = REQUEST_SIZE + nameLength
         in if length buf < expectedSize then Inl InsufficientData
            else
              (let nameBytes = subarray buf REQUEST_SIZE (REQUEST_SIZE + nameLength);
                   name = dec nameBytes;
                   req = new_Request proto name
               in case validateRequest req of
                    Inl e \<Rightarrow> Inl e
                  | Inr _ \<Rightarrow> Inr req)))"

definition serializeResponse :: "Response \<Rightarrow> error + buffer" where
  "serializeResponse resp =
     (case validateResponse resp of
        Inl e \<Rightarrow> Inl e
      | Inr _ \<Rightarrow>
          (let domainBytes = domain resp;
               buf = alloc (RESPONSE_SIZE + length domainBytes);
               buf = setUint8 buf 0 (status resp);
               buf = setBigUint64 buf 1 (ttlHours resp);
               buf = setUint32 buf 9 (domainLength resp);
               buf = copy domainBytes buf RESPONSE_SIZE
           in Inr buf))"

definition deserializeResponse :: "(buffer \<Rightarrow> utf8) \<Rightarrow> buffer \<Rightarrow> error + Response" where
  "deserializeResponse dec buf =
     (if length buf < RESPONSE_SIZE then Inl InvalidResponseSize
      else
        (let status = getUint8 buf 0;
             ttlHours = getBigUint64 buf 1;
             domainLength = nat (getUint32 buf 9);
             expectedSize = RESPONSE_SIZE + domainLength
         in if length buf < expectedSize then Inl InsufficientData
            else
              (let domainBytes = subarray buf RESPONSE_SIZE (RESPONSE_SIZE + domainLength);
                   domain = dec domainBytes;
                   resp = new_Response status ttlHours domain
               in case validateResponse resp of
                    Inl e \<Rightarrow> Inl e
                  | Inr _ \<Rightarrow> Inr resp)))"

definition serializeMetrics :: "Metrics \<Rightarrow> buffer" where
  "serializeMetrics metrics =
     (let buf = alloc METRICS_SIZE;
          buf = setBigUint64 buf 0 (ingress metrics);
          buf = setBigUint64 buf 8 (egress metrics);
          buf = setBigUint64 buf 16 (uptime metrics);
          buf = setBigUint64 buf 24 (connectionCount metrics);
          buf = setUint32 buf 32 (activeConnections metrics)
      in buf)"

definition deserializeMetrics :: "buffer \<Rightarrow> error + Metrics" where
  "deserializeMetrics buf =
     (if length buf < METRICS_SIZE then Inl InvalidMetricsSize
      else Inr \<lparr>ingress = getBigUint64 buf 0,
                egress = getBigUint64 buf 8,
                uptime = getBigUint64 buf 16,
                connectionCount = getBigUint64 buf 24,
                activeConnections = getUint32 buf 32\<rparr>)"

subsection \<open>Wire layouts\<close>

text \<open>
  The byte layouts of the four messages, written as concatenations of big-endian fields
  in field order. They name the buffers that the serializers build by writing into a
  zero-filled allocation (lemmas \<open>serializeHeader_wire\<close> and following), and the
  buffer that encodes a message whether or not the message is valid.
\<close>

definition Header_wire :: "Header \<Rightarrow> buffer" where
  "Header_wire h =
     be_bytes 1 (version h) @ be_bytes 1 (type h) @ be_bytes 1 (flags h)
     @ be_bytes 8 (length' h) @ be_bytes 1 (reserved h)"

definition Request_wire :: "Request \<Rightarrow> buffer" where
  "Request_wire r = be_bytes 1 (proto r) @ be_bytes 4 (nameLength r) @ name r"

definition Response_wire :: "Response \<Rightarrow> buffer" where
  "Response_wire p =
     be_bytes 1 (status p) @ be_bytes 8 (ttlHours p) @ be_bytes 4 (domainLength p) @ domain p"

definition Metrics_wire :: "Metrics \<Rightarrow> buffer" where
  "Metrics_wire m =
     be_bytes 8 (ingress m) @ be_bytes 8 (egress m) @ be_bytes 8 (uptime m)
     @ be_bytes 8 (connectionCount m) @ be_bytes 4 (activeConnections m)"

subsection \<open>Ranges\<close>

definition is_u8 :: "int \<Rightarrow> bool" where
  "is_u8 x = (0 \<le> x \<and> x < 2 ^ 8)"

definition is_u32 :: "int \<Rightarrow> bool" where
  "is_u32 x = (0 \<le> x \<and> x < 2 ^ 32)"

definition is_u64 :: "int \<Rightarrow> bool" where
  "is_u64 x = (0 \<le> x \<and> x < 2 ^ 64)"

definition is_int32 :: "int \<Rightarrow> bool" where
  "is_int32 x = (- (2 ^ 31) \<le> x \<and> x < 2 ^ 31)"

subsection \<open>Serialize, then deserialize\<close>

definition roundtripHeader :: "Header \<Rightarrow> error + Header" where
  "roundtripHeader h =
     (case serializeHeader h of Inl e \<Rightarrow> Inl e | Inr buf \<Rightarrow> deserializeHeader buf)"

definition roundtripRequest :: "(buffer \<Rightarrow> utf8) \<Rightarrow> Request \<Rightarrow> error + Request" where
  "roundtripRequest dec r =
     (case serializeRequest r of Inl e \<Rightarrow> Inl e | Inr buf \<Rightarrow> deserializeRequest dec buf)"

definition roundtripResponse :: "(buffer \<Rightarrow> utf8) \<Rightarrow> Response \<Rightarrow> error + Response" where
  "roundtripResponse dec p =
     (case serializeResponse p of Inl e \<Rightarrow> Inl e | Inr buf \<Rightarrow> deserializeResponse dec buf)"

definition roundtripMetrics :: "Metrics \<Rightarrow> error + Metrics" where
  "roundtripMetrics m = deserializeMetrics (serializeMetrics m)"

text \<open>
  The size a Request or Response buffer declares: the fixed part plus the value of its
  length field. It is what the deserializers call \<^verbatim>\<open>expectedSize\<close>.
\<close>

definition Request_declared_size :: "buffer \<Rightarrow> nat" where
  "Request_declared_size buf = REQUEST_SIZE + nat (getUint32 buf 1)"

definition Response_declared_size :: "buffer \<Rightarrow> nat" where
  "Response_declared_size buf = RESPONSE_SIZE + nat (getUint32 buf 9)"

section \<open>client.ts\<close>

subsection \<open>Streams\<close>

text \<open>
  A stream of the multiplexer is a Node \<^verbatim>\<open>Duplex\<close>. Its readable side holds the bytes that
  have arrived and were not read yet (\<open>buffered\<close>) and whether the peer has finished
  (\<open>ended\<close>). What the peer and the transport do next is the \<open>script\<close>: chunks that
  arrive, the end of the data, an error. \<open>written\<close> collects what the client writes and
  \<open>closed\<close> records a call of \<^verbatim>\<open>stream.close()\<close>.
\<close>

datatype event =
    Chunk buffer   \<comment> \<open>a chunk arrives; \<^verbatim>\<open>'readable'\<close> is emitted\<close>
  | Eof            \<comment> \<open>the peer finishes; \<^verbatim>\<open>'readable'\<close> is emitted, \<^verbatim>\<open>'end'\<close> once all is read\<close>
  | Broken nat     \<comment> \<open>\<^verbatim>\<open>'error'\<close> is emitted with this error object\<close>

record stream =
  buffered :: buffer
  ended :: bool
  script :: "event list"
  written :: buffer
  closed :: bool

definition fresh_stream :: "event list \<Rightarrow> stream" where
  "fresh_stream evs = \<lparr>buffered = [], ended = False, script = evs, written = [], closed = False\<rparr>"

text \<open>
  \<^verbatim>\<open>stream.read(size)\<close>, as the documentation of Node's \<^verbatim>\<open>Readable\<close> has it:
  \<^verbatim>\<open>read(0)\<close> always returns null and consumes nothing; if the bytes asked for are buffered they
  are returned; if fewer are buffered null is returned, unless the stream has ended, in
  which case all that remains is returned. A returned chunk is never empty.
\<close>

definition stream_read :: "nat \<Rightarrow> stream \<Rightarrow> buffer option \<times> stream" where
  "stream_read k st =
     (if k = 0 then (None, st)
      else if k \<le> length (buffered st)
        then (Some (take k (buffered st)), st\<lparr>buffered := drop k (buffered st)\<rparr>)
      else if ended st \<and> buffered st \<noteq> []
        then (Some (buffered st), st\<lparr>buffered := []\<rparr>)
      else (None, st))"

definition stream_write :: "buffer \<Rightarrow> stream \<Rightarrow> stream" where
  "stream_write bytes st = st\<lparr>written := written st @ bytes\<rparr>"

definition stream_close :: "stream \<Rightarrow> stream" where
  "stream_close st = st\<lparr>closed := True\<rparr>"

datatype 'a promise = Pending | Resolved 'a | Rejected error

subsection \<open>readN\<close>

text \<open>
  The handler \<^verbatim>\<open>onReadable\<close>: the loop reads \<^verbatim>\<open>n - buf.length\<close> bytes until \<^verbatim>\<open>read\<close> returns
  null. It leaves either with the promise resolved (\<open>Complete\<close>) or with the bytes
  gathered so far (\<open>NeedMore\<close>). The length of \<open>buf\<close> is compared with \<open>n\<close> only after a
  chunk was appended.
\<close>

datatype loop_exit = NeedMore buffer | Complete buffer

function onReadable :: "nat \<Rightarrow> buffer \<Rightarrow> stream \<Rightarrow> loop_exit \<times> stream" where
  "onReadable n buf st =
     (case stream_read (n - length buf) st of
        (None, st') \<Rightarrow> (NeedMore buf, st')
      | (Some chunk, st') \<Rightarrow>
          (let buf' = buf @ chunk
           in if length buf' = n then (Complete buf', st')
              else onReadable n buf' st'))"
  by pat_completeness auto
termination
  by (relation "measure (\<lambda>(n, buf, st). length (buffered st))")
    (auto simp: stream_read_def split: if_splits)

text \<open>
  After a run of \<^verbatim>\<open>onReadable\<close> that did not resolve the promise, the last \<^verbatim>\<open>read\<close> returned
  null. If the stream has ended and nothing is buffered, that \<^verbatim>\<open>read\<close> makes the stream
  emit \<^verbatim>\<open>'end'\<close>, and \<^verbatim>\<open>onEnd\<close> rejects; \<^verbatim>\<open>'end'\<close> is not emitted while unread bytes remain.
  A stream has not emitted \<^verbatim>\<open>'end'\<close> when \<^verbatim>\<open>readN\<close> is called on it: a new stream has not,
  a \<^verbatim>\<open>readN\<close> that resolved read exactly what it asked for in its last \<^verbatim>\<open>read\<close>, and after a
  \<^verbatim>\<open>readN\<close> that was rejected the program does not read the stream again.
\<close>

definition settle :: "loop_exit \<Rightarrow> stream \<Rightarrow> buffer + buffer promise" where
  "settle ex st =
     (case ex of
        Complete buf \<Rightarrow> Inr (Resolved buf)
      | NeedMore buf \<Rightarrow>
          if ended st \<and> buffered st = [] then Inr (Rejected UnexpectedEof) else Inl buf)"

text \<open>
  The listeners of \<^verbatim>\<open>readN\<close> at work on the events of the script, one at a time, until the
  promise settles; \<^verbatim>\<open>cleanup\<close> then removes them, and the events that are left stay in
  the script. A script that runs out leaves the promise pending for ever.
\<close>

fun readN_events :: "nat \<Rightarrow> buffer \<Rightarrow> stream \<Rightarrow> event list \<Rightarrow> buffer promise \<times> stream" where
  "readN_events n buf st [] = (Pending, st\<lparr>script := []\<rparr>)"
| "readN_events n buf st (Broken e # evs) = (Rejected (StreamError e), st\<lparr>script := evs\<rparr>)"
| "readN_events n buf st (Chunk c # evs) =
     (case onReadable n buf (st\<lparr>buffered := buffered st @ c\<rparr>) of
        (ex, st') \<Rightarrow>
          (case settle ex st' of
             Inr p \<Rightarrow> (p, st'\<lparr>script := evs\<rparr>)
           | Inl buf' \<Rightarrow> readN_events n buf' st' evs))"
| "readN_events n buf st (Eof # evs) =
     (case onReadable n buf (st\<lparr>ended := True\<rparr>) of
        (ex, st') \<Rightarrow>
          (case settle ex st' of
             Inr p \<Rightarrow> (p, st'\<lparr>script := evs\<rparr>)
           | Inl buf' \<Rightarrow> readN_events n buf' st' evs))"

text \<open>\<^verbatim>\<open>readN(stream, n)\<close>: the listeners are registered and \<^verbatim>\<open>onReadable()\<close> is called once.\<close>

definition readN :: "stream \<Rightarrow> nat \<Rightarrow> buffer promise \<times> stream" where
  "readN st n =
     (case onReadable n [] st of
        (ex, st') \<Rightarrow>
          (case settle ex st' of
             Inr p \<Rightarrow> (p, st')
           | Inl buf \<Rightarrow> readN_events n buf st' (script st')))"

text \<open>The bytes of a stream that nobody has read: those buffered and those still to arrive.\<close>

fun payload :: "event \<Rightarrow> buffer" where
  "payload (Chunk c) = c"
| "payload Eof = []"
| "payload (Broken e) = []"

definition unread :: "stream \<Rightarrow> buffer" where
  "unread st = buffered st @ concat (map payload (script st))"

subsection \<open>The client\<close>

datatype client_error =
    AddrMustBeSet | TargetAddrMustBeSet | NameMustBeSet | ProtoMustBeSet

record ClientOptions =
  opt_addr :: utf8
  opt_targetAddr :: utf8
  opt_withTLS :: "bool option"
  opt_proto :: int
  opt_name :: utf8
  opt_metrics :: "bool option"

datatype notice =
    NameInUse utf8           \<comment> \<open>err: "subdomain '...' is already in use"\<close>
  | ProtoNotSupported int    \<comment> \<open>err: "protocol '...' is not supported"\<close>
  | UnexpectedStatus int     \<comment> \<open>err: "unexpected response status: ..."\<close>
  | TunnelCreated utf8       \<comment> \<open>inf: "tunnel created!", the scheme and the domain\<close>
  | TunnelTimedOut           \<comment> \<open>inf: "tunnel timed out"\<close>

text \<open>
  The fields of the class, with what \<^verbatim>\<open>prettyPrint\<close> has printed so far in \<open>printed\<close>.
  The expiry line of the tunnel notice depends on the clock and is left out.
\<close>

record Client =
  addr :: utf8
  targetAddr :: utf8
  withTLS :: bool
  client_proto :: int
  client_name :: utf8
  client_domain :: utf8
  metrics :: bool
  printed :: "notice list"

definition new_Client :: "ClientOptions \<Rightarrow> client_error + Client" where
  "new_Client options =
     (if opt_addr options = [] then Inl AddrMustBeSet
      else if opt_targetAddr options = [] then Inl TargetAddrMustBeSet
      else if opt_name options = [] then Inl NameMustBeSet
      else if opt_proto options = 0 then Inl ProtoMustBeSet
      else Inr \<lparr>addr = opt_addr options,
                targetAddr = opt_targetAddr options,
                withTLS = (case opt_withTLS options of None \<Rightarrow> False | Some b \<Rightarrow> b),
                client_proto = opt_proto options,
                client_name = opt_name options,
                client_domain = [],
                metrics = (case opt_metrics options of None \<Rightarrow> False | Some b \<Rightarrow> b),
                printed = []\<rparr>)"

definition getDomain :: "Client \<Rightarrow> utf8" where
  "getDomain c = client_domain c"

definition prettyPrint :: "notice \<Rightarrow> Client \<Rightarrow> Client" where
  "prettyPrint line c = c\<lparr>printed := printed c @ [line]\<rparr>"

definition protoString :: "int \<Rightarrow> utf8" where
  "protoString p =
     (if p = ProtoType_HTTP then [104, 116, 116, 112, 115, 58, 47, 47]
      else if p = ProtoType_TCP then [116, 99, 112, 58]
      else [])"

subsection \<open>The handshake\<close>

definition sendRequest :: "Client \<Rightarrow> stream \<Rightarrow> Header promise \<times> stream" where
  "sendRequest c st =
     (let request = new_Request (client_proto c) (client_name c)
      in case serializeRequest request of
           Inl e \<Rightarrow> (Rejected e, st)
         | Inr serializedRequest \<Rightarrow>
             (let header = new_Header MessageType_Request (int (length serializedRequest));
                  header = (if metrics c then setFlag header FLAG_METRICS else header)
              in case serializeHeader header of
                   Inl e \<Rightarrow> (Rejected e, st)
                 | Inr serializedHeader \<Rightarrow>
                     (let st = stream_write serializedHeader st;
                          st = stream_write serializedRequest st
                      in case readN st HEADER_SIZE of
                           (Pending, st) \<Rightarrow> (Pending, st)
                         | (Rejected e, st) \<Rightarrow> (Rejected e, st)
                         | (Resolved headerBuf, st) \<Rightarrow>
                             (case deserializeHeader headerBuf of
                                Inl e \<Rightarrow> (Rejected e, st)
                              | Inr h \<Rightarrow> (Resolved h, st)))))"

text \<open>
  What the session does after a successful registration: it closes, it fails, or it
  stays open for ever.
\<close>

datatype session_end = StaysOpen | SessionClose | SessionError nat

text \<open>
  \<^verbatim>\<open>handleConnection\<close>. The result is the promise of the call, whether
  \<^verbatim>\<open>abort.abort()\<close> was called (the \<^verbatim>\<open>'close'\<close> handler of the session does it), the client
  and the control stream. The dashboard started by \<^verbatim>\<open>renderMetrics\<close> is not part of the
  model.
\<close>

definition handleConnection ::
  "(buffer \<Rightarrow> utf8) \<Rightarrow> session_end \<Rightarrow> Client \<Rightarrow> stream \<Rightarrow> unit promise \<times> bool \<times> Client \<times> stream"
where
  "handleConnection dec sess c st =
     (case sendRequest c st of
        (Pending, st) \<Rightarrow> (Pending, False, c, st)
      | (Rejected e, st) \<Rightarrow> (Rejected e, False, c, st)
      | (Resolved responseHeader, st) \<Rightarrow>
          if type responseHeader = MessageType_Error then
            (case readN st (nat (length' responseHeader)) of
               (Pending, st) \<Rightarrow> (Pending, False, c, st)
             | (Rejected e, st) \<Rightarrow> (Rejected e, False, c, st)
             | (Resolved errorBuf, st) \<Rightarrow> (Rejected (ServerError (dec errorBuf)), False, c, st))
          else if type responseHeader \<noteq> MessageType_Response then
            (Rejected (UnexpectedHeaderType (type responseHeader)), False, c, st)
          else
            (case readN st (nat (length' responseHeader)) of
               (Pending, st) \<Rightarrow> (Pending, False, c, st)
             | (Rejected e, st) \<Rightarrow> (Rejected e, False, c, st)
             | (Resolved responseBuf, st) \<Rightarrow>
                 (case deserializeResponse dec responseBuf of
                    Inl e \<Rightarrow> (Rejected e, False, c, st)
                  | Inr response \<Rightarrow>
                      if status response = StatusCode_NameTaken then
                        (Resolved (), False, prettyPrint (NameInUse (client_name c)) c, st)
                      else if status response = StatusCode_UnsupportedProto then
                        (Resolved (), False, prettyPrint (ProtoNotSupported (client_proto c)) c, st)
                      else if status response = StatusCode_OK then
                        (let c = c\<lparr>client_domain := domain response\<rparr>;
                             c = prettyPrint
                                   (TunnelCreated (protoString (client_proto c) @ domain response)) c
                         in case sess of
                              StaysOpen \<Rightarrow> (Pending, False, c, st)
                            | SessionClose \<Rightarrow> (Resolved (), True, c, st)
                            | SessionError e \<Rightarrow> (Rejected (StreamError e), False, c, st))
                      else
                        (Rejected (UnexpectedResponseStatus (status response)), False,
                         prettyPrint (UnexpectedStatus (status response)) c, st))))"

text \<open>
  \<^verbatim>\<open>run\<close>. The dial either connects or fails. The promise of \<^verbatim>\<open>run\<close> is settled by whoever
  comes first: the \<^verbatim>\<open>'abort'\<close> listener, which rejects without a reason and runs inside
  \<^verbatim>\<open>abort.abort()\<close>, or the end of \<^verbatim>\<open>handleConnection\<close>. An abort requested from outside
  (SIGINT) is not part of the model.
\<close>

datatype dial = Connected | DialError nat

datatype run_result = Resolves | RejectsWith error | RejectsWithoutReason | NeverSettles

definition run ::
  "(buffer \<Rightarrow> utf8) \<Rightarrow> dial \<Rightarrow> session_end \<Rightarrow> Client \<Rightarrow> stream \<Rightarrow> run_result \<times> Client \<times> stream"
where
  "run dec d sess c st =
     (case d of
        DialError e \<Rightarrow> (RejectsWith (FailedToDial e), c, st)
      | Connected \<Rightarrow>
          (case handleConnection dec sess c st of
             (p, aborted, c', st') \<Rightarrow>
               (if aborted then (RejectsWithoutReason, c', st')
                else case p of
                       Resolved _ \<Rightarrow> (Resolves, c', st')
                     | Rejected e \<Rightarrow> (RejectsWith e, c', st')
                     | Pending \<Rightarrow> (NeverSettles, c', st'))))"

text \<open>
  The Response that \<^verbatim>\<open>handleConnection\<close> gets to see: the value of its variable
  \<^verbatim>\<open>response\<close>, if the call reaches the \<^verbatim>\<open>switch\<close>.
\<close>

definition handshakeResponse :: "(buffer \<Rightarrow> utf8) \<Rightarrow> Client \<Rightarrow> stream \<Rightarrow> Response option" where
  "handshakeResponse dec c st =
     (case sendRequest c st of
        (Resolved responseHeader, st) \<Rightarrow>
          if type responseHeader = MessageType_Response then
            (case readN st (nat (length' responseHeader)) of
               (Resolved responseBuf, st) \<Rightarrow>
                 (case deserializeResponse dec responseBuf of
                    Inr response \<Rightarrow> Some response
                  | Inl e \<Rightarrow> None)
             | (Pending, st) \<Rightarrow> None
             | (Rejected e, st) \<Rightarrow> None)
          else None
      | (Pending, st) \<Rightarrow> None
      | (Rejected e, st) \<Rightarrow> None)"

subsection \<open>The dispatcher\<close>

text \<open>
  \<^verbatim>\<open>onNewStream\<close> reads one header and hands the stream on. The result says where the
  stream went: to the forwarder, to the metrics consumer (with the header), nowhere
  because the tunnel ended (the session is closed as well), nowhere because the type
  was unexpected or the header could not be read; or that the header has not arrived.
\<close>

datatype dispatch =
    Forwarded
  | MetricsStarted Header
  | SessionEnded
  | Dropped int
  | ReadFailed error
  | Waiting

definition onNewStream :: "Client \<Rightarrow> stream \<Rightarrow> dispatch \<times> Client \<times> stream" where
  "onNewStream c st =
     (case readN st HEADER_SIZE of
        (Pending, st) \<Rightarrow> (Waiting, c, st)
      | (Rejected e, st) \<Rightarrow> (ReadFailed e, c, stream_close st)
      | (Resolved headerBuf, st) \<Rightarrow>
          (case deserializeHeader headerBuf of
             Inl e \<Rightarrow> (ReadFailed e, c, stream_close st)
           | Inr header \<Rightarrow>
               if type header = MessageType_Access then (Forwarded, c, st)
               else if type header = MessageType_Metrics then (MetricsStarted header, c, st)
               else if type header = MessageType_End then
                 (SessionEnded, prettyPrint TunnelTimedOut c, stream_close st)
               else (Dropped (type header), c, stream_close st)))"

subsection \<open>The forwarder\<close>

text \<open>
  \<^verbatim>\<open>forwardStream\<close> registers one-shot listeners for six events and for the connect of the
  local socket. The model keeps the variable \<^verbatim>\<open>isCleanedUp\<close>, the promise, whether the
  two pipes are installed, the number of times the body of \<^verbatim>\<open>cleanup\<close> ran, and the state
  of the two halves. A half changes state when the program calls a method on it or when
  an event reports that it changed by itself:
  \<^item> \<^verbatim>\<open>stream.close()\<close> closes the inbound stream; so does the event \<^verbatim>\<open>'close'\<close> of the
    stream;
  \<^item> the events \<^verbatim>\<open>'close'\<close> and \<^verbatim>\<open>'error'\<close> of the local socket report a socket that is
    destroyed, and so does \<^verbatim>\<open>'end'\<close> (the socket was opened without \<^verbatim>\<open>allowHalfOpen\<close>,
    so Node ends and destroys it when the peer finishes);
  \<^item> \<^verbatim>\<open>stream.pipe(localConn)\<close> calls \<^verbatim>\<open>localConn.end()\<close> when the stream emits \<^verbatim>\<open>'end'\<close>,
    which finishes the writing side of the socket and leaves it half open; it does
    nothing on \<^verbatim>\<open>'close'\<close> or \<^verbatim>\<open>'error'\<close> of the stream.
\<close>

datatype half = Open | HalfOpen | Closed

datatype fwd_event =
    LocalConnect
  | StreamClosed | StreamEnded | StreamErrored nat
  | LocalClosed | LocalEnded | LocalErrored nat

record forward =
  isCleanedUp :: bool
  settled :: "unit promise"
  piped :: bool
  cleanups :: nat
  inbound :: half
  localConn :: half

definition forward_start :: forward where
  "forward_start = \<lparr>isCleanedUp = False, settled = Pending, piped = False, cleanups = 0,
                     inbound = Open, localConn = Open\<rparr>"

definition cleanup :: "error option \<Rightarrow> forward \<Rightarrow> forward" where
  "cleanup err f =
     (if isCleanedUp f then f
      else
        (let f = f\<lparr>isCleanedUp := True, cleanups := Suc (cleanups f)\<rparr>;
             f = f\<lparr>inbound := Closed\<rparr>
         in case err of
              Some e \<Rightarrow> f\<lparr>settled := Rejected e\<rparr>
            | None \<Rightarrow> f\<lparr>settled := Resolved ()\<rparr>))"

fun forward_event :: "fwd_event \<Rightarrow> forward \<Rightarrow> forward" where
  "forward_event LocalConnect f = f\<lparr>piped := True\<rparr>"
| "forward_event StreamClosed f = cleanup None (f\<lparr>inbound := Closed\<rparr>)"
| "forward_event StreamEnded f =
     cleanup None (if piped f \<and> localConn f = Open then f\<lparr>localConn := HalfOpen\<rparr> else f)"
| "forward_event (StreamErrored e) f = cleanup (Some (StreamError e)) f"
| "forward_event LocalClosed f = cleanup None (f\<lparr>localConn := Closed\<rparr>)"
| "forward_event LocalEnded f = cleanup None (f\<lparr>localConn := Closed\<rparr>)"
| "forward_event (LocalErrored e) f = cleanup (Some (StreamError e)) (f\<lparr>localConn := Closed\<rparr>)"

definition forwardStream :: "fwd_event list \<Rightarrow> forward" where
  "forwardStream evs = fold forward_event evs forward_start"

definition terminating :: "fwd_event \<Rightarrow> bool" where
  "terminating ev = (ev \<noteq> LocalConnect)"

text \<open>
  The first of the six events in a list, and the result that \<^verbatim>\<open>cleanup\<close> gives the promise
  when it is called for an event.
\<close>

fun first_terminating :: "fwd_event list \<Rightarrow> fwd_event option" where
  "first_terminating [] = None"
| "first_terminating (ev # evs) =
     (if terminating ev then Some ev else first_terminating evs)"

fun event_result :: "fwd_event \<Rightarrow> unit promise" where
  "event_result (StreamErrored e) = Rejected (StreamError e)"
| "event_result (LocalErrored e) = Rejected (StreamError e)"
| "event_result ev = Resolved ()"

subsection \<open>A session to run the model on\<close>

text \<open>
  The client that the command line creates for \<^verbatim>\<open>http --name alpha --targetAddress :3000\<close>,
  and a control stream on which the server answers with a Response header followed by
  the given Response, each in a chunk of its own.
\<close>

definition alpha_options :: ClientOptions where
  "alpha_options =
     \<lparr>opt_addr = [119, 111, 114, 109, 104, 111, 108, 101, 58, 52, 52, 51],
      opt_targetAddr = [58, 51, 48, 48, 48],
      opt_withTLS = Some False,
      opt_proto = ProtoType_HTTP,
      opt_name = [97, 108, 112, 104, 97],
      opt_metrics = Some False\<rparr>"

definition alpha_client :: Client where
  "alpha_client =
     \<lparr>addr = [119, 111, 114, 109, 104, 111, 108, 101, 58, 52, 52, 51],
      targetAddr = [58, 51, 48, 48, 48],
      withTLS = False,
      client_proto = ProtoType_HTTP,
      client_name = [97, 108, 112, 104, 97],
      client_domain = [],
      metrics = False,
      printed = []\<rparr>"

definition alpha_example :: utf8 where
  "alpha_example = [97, 108, 112, 104, 97, 46, 101, 120, 97, 109, 112, 108, 101]"

definition reply_header :: "buffer \<Rightarrow> Header" where
  "reply_header body = new_Header MessageType_Response (int (length body))"

definition server_replies :: "buffer \<Rightarrow> stream" where
  "server_replies body = fresh_stream (map Chunk [Header_wire (reply_header body), body])"

section \<open>Properties of the codec\<close>

lemmas proto_consts =
  VERSION_def MAX_PAYLOAD_SIZE_def MAX_STRING_LENGTH_def HEADER_SIZE_def REQUEST_SIZE_def
  RESPONSE_SIZE_def METRICS_SIZE_def MessageType_Request_def MessageType_Response_def
  MessageType_Access_def MessageType_Ack_def MessageType_Metrics_def MessageType_End_def
  MessageType_Error_def FLAG_METRICS_def ProtoType_HTTP_def ProtoType_TCP_def
  StatusCode_OK_def StatusCode_NameTaken_def StatusCode_UnsupportedProto_def

subsection \<open>Big-endian fields and buffer writes\<close>

lemma length_be_bytes [simp]: "length (be_bytes n v) = n"
  by (induction n arbitrary: v) auto

lemma be_int_Nil [simp]: "be_int [] = 0"
  by (simp add: be_int_def)

lemma be_int_snoc [simp]: "be_int (bs @ [b]) = be_int bs * 256 + uint b"
  by (simp add: be_int_def)

lemma be_int_single [simp]: "be_int [b] = uint b"
  using be_int_snoc [of "[]" b] by simp

lemma be_int_be_bytes: "be_int (be_bytes n v) = v mod 256 ^ n"
proof (induction n arbitrary: v)
  case 0
  show ?case by simp
next
  case (Suc n)
  have "be_int (be_bytes (Suc n) v) = (v div 256) mod 256 ^ n * 256 + v mod 256"
    by (simp add: Suc.IH uint_word_of_int)
  also have "\<dots> = v mod 256 ^ Suc n"
  proof -
    have "v mod (256 * 256 ^ n) = 256 * (v div 256 mod 256 ^ n) + v mod 256"
      by (rule zmod_zmult2_eq) simp
    then show ?thesis by simp
  qed
  finally show ?case .
qed

lemma be_int_nonneg: "0 \<le> be_int bs"
  by (induction bs rule: rev_induct) auto

lemma be_int_less: "be_int bs < 256 ^ length bs"
proof (induction bs rule: rev_induct)
  case Nil
  show ?case by simp
next
  case (snoc b bs)
  have "uint b < 256" using uint_bounded [of b] by simp
  with snoc show ?case by simp
qed

lemma write_at_eq:
  "off + length bs \<le> length buf \<Longrightarrow>
   write_at buf off bs = take off buf @ bs @ drop (off + length bs) buf"
proof (induction bs arbitrary: buf off)
  case Nil
  show ?case by simp
next
  case (Cons b bs)
  then have "off < length buf" by simp
  then have "buf[off := b] = take off buf @ b # drop (Suc off) buf"
    by (rule upd_conv_take_nth_drop)
  with Cons show ?case
    by (simp add: take_Suc_conv_app_nth add.commute)
qed

subsection \<open>What the serializers write\<close>

lemma serializeHeader_wire:
  "serializeHeader h = (case validateHeader h of Inl e \<Rightarrow> Inl e | Inr _ \<Rightarrow> Inr (Header_wire h))"
  by (simp add: serializeHeader_def Header_wire_def alloc_def HEADER_SIZE_def
      setUint8_def setBigUint64_def write_at_eq Let_def del: be_bytes.simps write_at.simps split: sum.splits)

lemma serializeRequest_wire:
  "serializeRequest r = (case validateRequest r of Inl e \<Rightarrow> Inl e | Inr _ \<Rightarrow> Inr (Request_wire r))"
  by (simp add: serializeRequest_def Request_wire_def alloc_def REQUEST_SIZE_def copy_def
      setUint8_def setUint32_def write_at_eq Let_def del: be_bytes.simps write_at.simps split: sum.splits)

lemma serializeResponse_wire:
  "serializeResponse p =
     (case validateResponse p of Inl e \<Rightarrow> Inl e | Inr _ \<Rightarrow> Inr (Response_wire p))"
  by (simp add: serializeResponse_def Response_wire_def alloc_def RESPONSE_SIZE_def copy_def
      setUint8_def setUint32_def setBigUint64_def write_at_eq Let_def del: be_bytes.simps write_at.simps split: sum.splits)

lemma serializeMetrics_wire: "serializeMetrics m = Metrics_wire m"
  by (simp add: serializeMetrics_def Metrics_wire_def alloc_def METRICS_SIZE_def
      setUint32_def setBigUint64_def write_at_eq Let_def del: be_bytes.simps write_at.simps)

subsection \<open>Reading a wire layout back\<close>

lemma subarray_take: "b \<le> n \<Longrightarrow> subarray (take n buf) a b = subarray buf a b"
  by (simp add: subarray_def drop_take min_def)

lemma getUint8_take: "off < n \<Longrightarrow> getUint8 (take n buf) off = getUint8 buf off"
  by (simp add: getUint8_def subarray_take)

lemma getUint32_take: "off + 4 \<le> n \<Longrightarrow> getUint32 (take n buf) off = getUint32 buf off"
  by (simp add: getUint32_def subarray_take)

lemma getBigUint64_take: "off + 8 \<le> n \<Longrightarrow> getBigUint64 (take n buf) off = getBigUint64 buf off"
  by (simp add: getBigUint64_def subarray_take)

lemma getUint32_bounds: "0 \<le> getUint32 buf off" "getUint32 buf off < 2 ^ 32"
proof -
  show "0 \<le> getUint32 buf off" by (simp add: getUint32_def be_int_nonneg)
  have "be_int (subarray buf off (off + 4)) < 256 ^ length (subarray buf off (off + 4))"
    by (rule be_int_less)
  also have "\<dots> \<le> (256::int) ^ 4"
    by (rule power_increasing) (simp_all add: subarray_def)
  finally show "getUint32 buf off < 2 ^ 32" by (simp add: getUint32_def)
qed

lemma Header_wire_reads:
  "getUint8 (Header_wire h) 0 = version h mod 256"
  "getUint8 (Header_wire h) 1 = type h mod 256"
  "getUint8 (Header_wire h) 2 = flags h mod 256"
  "getBigUint64 (Header_wire h) 3 = length' h mod 2 ^ 64"
  "getUint8 (Header_wire h) 11 = reserved h mod 256"
  "length (Header_wire h) = 12"
  by (simp_all add: Header_wire_def getUint8_def getBigUint64_def subarray_def be_int_be_bytes
      del: be_bytes.simps)

lemma Request_wire_reads:
  "getUint8 (Request_wire r) 0 = proto r mod 256"
  "getUint32 (Request_wire r) 1 = nameLength r mod 2 ^ 32"
  "length (Request_wire r) = 5 + length (name r)"
  "subarray (Request_wire r) 5 (5 + length (name r)) = name r"
  by (simp_all add: Request_wire_def getUint8_def getUint32_def subarray_def be_int_be_bytes
      del: be_bytes.simps)

lemma Response_wire_reads:
  "getUint8 (Response_wire p) 0 = status p mod 256"
  "getBigUint64 (Response_wire p) 1 = ttlHours p mod 2 ^ 64"
  "getUint32 (Response_wire p) 9 = domainLength p mod 2 ^ 32"
  "length (Response_wire p) = 13 + length (domain p)"
  "subarray (Response_wire p) 13 (13 + length (domain p)) = domain p"
  by (simp_all add: Response_wire_def getUint8_def getUint32_def getBigUint64_def subarray_def
      be_int_be_bytes del: be_bytes.simps)

lemma Metrics_wire_reads:
  "getBigUint64 (Metrics_wire m) 0 = ingress m mod 2 ^ 64"
  "getBigUint64 (Metrics_wire m) 8 = egress m mod 2 ^ 64"
  "getBigUint64 (Metrics_wire m) 16 = uptime m mod 2 ^ 64"
  "getBigUint64 (Metrics_wire m) 24 = connectionCount m mod 2 ^ 64"
  "getUint32 (Metrics_wire m) 32 = activeConnections m mod 2 ^ 32"
  "length (Metrics_wire m) = 36"
  by (simp_all add: Metrics_wire_def getUint32_def getBigUint64_def subarray_def
      be_int_be_bytes del: be_bytes.simps)

section \<open>Flag algebra\<close>

lemma ToInt32_sint [simp]: "ToInt32 (sint w) = w"
  by (simp add: ToInt32_def)

lemma sint_ToInt32: "is_int32 x \<Longrightarrow> sint (ToInt32 x) = x"
  by (simp add: ToInt32_def is_int32_def int_word_sint)

lemma or_and_not: "(a OR b) AND NOT b = (a AND NOT b :: 32 word)"
  by (rule bit_word_eqI) (auto simp: bit_simps)

lemma and_not_same_iff: "a AND NOT b = a \<longleftrightarrow> a AND b = (0 :: 32 word)"
proof
  assume h: "a AND NOT b = a"
  show "a AND b = 0"
  proof (rule bit_word_eqI)
    fix n
    from h have "bit (a AND NOT b) n = bit a n" by simp
    then show "bit (a AND b) n = bit (0 :: 32 word) n" by (auto simp: bit_simps)
  qed
next
  assume h: "a AND b = 0"
  show "a AND NOT b = a"
  proof (rule bit_word_eqI)
    fix n
    assume n: "n < LENGTH(32)"
    from h have "\<not> bit (a AND b) n" by simp
    with n show "bit (a AND NOT b) n = bit a n" by (auto simp: bit_simps)
  qed
qed

lemma setFlag_idem: "setFlag (setFlag h f) f = setFlag h f"
  by (simp add: setFlag_def js_or_def ac_simps)

lemma clear_set: "clearFlag (setFlag h f) f = clearFlag h f"
  by (simp add: setFlag_def clearFlag_def js_or_def js_and_def js_not_def or_and_not)

lemma sint_eq_0_iff: "sint (w :: 32 word) = 0 \<longleftrightarrow> w = 0"
  by (simp add: signed_eq_0_iff)

lemma clearFlag_id_iff:
  assumes "is_int32 (flags h)"
  shows "clearFlag h f = h \<longleftrightarrow> \<not> hasFlag h f"
proof -
  have "clearFlag h f = h \<longleftrightarrow> flags (clearFlag h f) = flags h"
    by (cases h) (auto simp: clearFlag_def)
  also have "\<dots> \<longleftrightarrow> sint (ToInt32 (flags h) AND NOT (ToInt32 f)) = sint (ToInt32 (flags h))"
    using assms by (simp add: clearFlag_def js_and_def js_not_def sint_ToInt32)
  also have "\<dots> \<longleftrightarrow> ToInt32 (flags h) AND NOT (ToInt32 f) = ToInt32 (flags h)"
    by (metis ToInt32_sint)
  also have "\<dots> \<longleftrightarrow> ToInt32 (flags h) AND ToInt32 f = 0"
    by (rule and_not_same_iff)
  also have "\<dots> \<longleftrightarrow> \<not> hasFlag h f"
    by (simp add: hasFlag_def js_and_def sint_eq_0_iff)
  finally show ?thesis .
qed

text \<open>
  C3 (amended). For every header \<open>h\<close> and every mask \<open>f\<close>: \<^verbatim>\<open>setFlag(f)\<close> is idempotent;
  \<^verbatim>\<open>clearFlag(f)\<close> after \<^verbatim>\<open>setFlag(f)\<close> leaves the flags that \<^verbatim>\<open>clearFlag(f)\<close> alone would
  leave, so for flags in the signed 32-bit range it restores the header from before the
  \<^verbatim>\<open>setFlag\<close> call exactly when \<^verbatim>\<open>hasFlag(f)\<close> was false then; and \<^verbatim>\<open>hasFlag(f)\<close> is true
  exactly when \<^verbatim>\<open>(flags & f) !== 0\<close>.
\<close>

theorem flag_algebra:
  "setFlag (setFlag h f) f = setFlag h f
   \<and> clearFlag (setFlag h f) f = clearFlag h f
   \<and> (is_int32 (flags h) \<longrightarrow> (clearFlag (setFlag h f) f = h \<longleftrightarrow> \<not> hasFlag h f))
   \<and> (hasFlag h f \<longleftrightarrow> js_and (flags h) f \<noteq> 0)"
  using setFlag_idem [of h f] clear_set [of h f] clearFlag_id_iff [of h f]
  by (simp add: hasFlag_def)

theorem flag_algebra_witness:
  "is_int32 (flags (new_Header MessageType_Ack 0))
   \<and> \<not> hasFlag (new_Header MessageType_Ack 0) FLAG_METRICS
   \<and> clearFlag (setFlag (new_Header MessageType_Ack 0) FLAG_METRICS) FLAG_METRICS
       = new_Header MessageType_Ack 0"
proof -
  have a: "is_int32 (flags (new_Header MessageType_Ack 0))"
    by (simp add: is_int32_def new_Header_def)
  have b: "\<not> hasFlag (new_Header MessageType_Ack 0) FLAG_METRICS"
    by (simp add: hasFlag_def js_and_def ToInt32_def new_Header_def FLAG_METRICS_def)
  from a b flag_algebra [of "new_Header MessageType_Ack 0" FLAG_METRICS]
  show ?thesis by blast
qed

text \<open>
  C3 as stated fails when the flag was already set: on a header that carries
  \<^verbatim>\<open>FLAG_METRICS\<close>, \<^verbatim>\<open>setFlag\<close> changes nothing and \<^verbatim>\<open>clearFlag\<close> then removes the flag.
\<close>

theorem clearFlag_after_setFlag_counterexample:
  "clearFlag (setFlag (setFlag (new_Header MessageType_Ack 0) FLAG_METRICS) FLAG_METRICS)
     FLAG_METRICS
   \<noteq> setFlag (new_Header MessageType_Ack 0) FLAG_METRICS"
  by (simp add: setFlag_def clearFlag_def js_or_def js_and_def js_not_def ToInt32_def
      new_Header_def FLAG_METRICS_def)

section \<open>Round trips\<close>

lemma mod_id_u8: "is_u8 x \<Longrightarrow> x mod 256 = x"
  by (simp add: is_u8_def)

lemma mod_id_u32: "is_u32 x \<Longrightarrow> x mod 4294967296 = x"
  by (simp add: is_u32_def)

lemma mod_id_u64: "is_u64 x \<Longrightarrow> x mod 18446744073709551616 = x"
  by (simp add: is_u64_def)

lemmas wire_reads =
  Header_wire_reads Header_wire_reads(2) [unfolded One_nat_def]
  Request_wire_reads Request_wire_reads(2) [unfolded One_nat_def]
  Response_wire_reads Response_wire_reads(2) [unfolded One_nat_def]
  Metrics_wire_reads

lemma deserializeHeader_wire:
  assumes "is_u8 (version h)" "is_u8 (type h)" "is_u8 (flags h)" "is_u64 (length' h)"
    "is_u8 (reserved h)"
  shows "deserializeHeader (Header_wire h) =
           (case validateHeader h of Inl e \<Rightarrow> Inl e | Inr _ \<Rightarrow> Inr h)"
proof -
  have e: "new_Header (type h) (length' h)
          \<lparr>version := version h, flags := flags h, reserved := reserved h\<rparr> = h"
    by (cases h) (simp add: new_Header_def)
  from assms show ?thesis
    by (simp add: deserializeHeader_def wire_reads HEADER_SIZE_def Let_def
        mod_id_u8 mod_id_u64 e split: sum.splits)
qed

lemma roundtripHeader_ok:
  assumes v: "validateHeader h = Inr ()"
    and r: "is_u8 (type h)" "is_u8 (flags h)" "0 \<le> length' h"
  shows "roundtripHeader h = Inr h"
proof -
  from v have f: "version h = 16" "length' h \<le> 1048576" "reserved h = 0"
    by (auto simp: validateHeader_def proto_consts split: if_splits)
  with r have "is_u8 (version h)" "is_u64 (length' h)" "is_u8 (reserved h)"
    by (simp_all add: is_u8_def is_u64_def)
  with r v show ?thesis
    by (simp add: roundtripHeader_def serializeHeader_wire deserializeHeader_wire)
qed

lemma roundtripRequest_ok:
  assumes v: "validateRequest r = Inr ()" and d: "dec (name r) = name r"
  shows "roundtripRequest dec r = Inr r"
proof -
  from v have f: "proto r = 1 \<or> proto r = 2" "name r \<noteq> []"
    "nameLength r = int (length (name r))" "nameLength r \<le> 4096"
    by (auto simp: validateRequest_def proto_consts split: if_splits)
  then have p: "proto r mod 256 = proto r" by auto
  from f have n: "int (length (name r)) mod 4294967296 = int (length (name r))" by simp
  have e: "new_Request (proto r) (name r) = r"
    using f by (cases r) (simp add: new_Request_def)
  have "deserializeRequest dec (Request_wire r) = Inr r"
    using v d f(3)
    by (simp add: deserializeRequest_def wire_reads REQUEST_SIZE_def Let_def p n e)
  with v show ?thesis
    by (simp add: roundtripRequest_def serializeRequest_wire)
qed

lemma roundtripResponse_ok:
  assumes v: "validateResponse p = Inr ()"
    and t: "is_u64 (ttlHours p)"
    and l: "domainLength p = int (length (domain p))" "is_u32 (domainLength p)"
    and d: "dec (domain p) = domain p"
  shows "roundtripResponse dec p = Inr p"
proof -
  from v have "status p = 1 \<or> status p = 3 \<or> status p = 4"
    by (auto simp: validateResponse_def proto_consts split: if_splits)
  then have s: "status p mod 256 = status p" by auto
  have e: "new_Response (status p) (ttlHours p) (domain p) = p"
    using l by (cases p) (simp add: new_Response_def)
  have "deserializeResponse dec (Response_wire p) = Inr p"
    using v d l t
    by (simp add: deserializeResponse_def wire_reads RESPONSE_SIZE_def Let_def s e
        mod_id_u32 mod_id_u64)
  with v show ?thesis
    by (simp add: roundtripResponse_def serializeResponse_wire)
qed

lemma roundtripMetrics_ok:
  assumes "is_u64 (ingress m)" "is_u64 (egress m)" "is_u64 (uptime m)"
    "is_u64 (connectionCount m)" "is_u32 (activeConnections m)"
  shows "roundtripMetrics m = Inr m"
  using assms
  by (cases m)
    (simp add: roundtripMetrics_def serializeMetrics_wire deserializeMetrics_def
      wire_reads METRICS_SIZE_def mod_id_u32 mod_id_u64)

text \<open>
  C1 (amended). Serializing and then deserializing returns the value it started from for
  every Header, Request, Response and Metrics that passes its validator (Metrics has
  none), whose numeric fields lie in the ranges of their wire fields, whose strings are
  well-formed (the decoder maps their encoding back to them) and, for a Response, whose
  \<^verbatim>\<open>domainLength\<close> is the byte length of \<^verbatim>\<open>domain\<close> also when the status is not OK.
\<close>

theorem roundtrip_valid:
  "(validateHeader h = Inr () \<and> is_u8 (type h) \<and> is_u8 (flags h) \<and> 0 \<le> length' h
      \<longrightarrow> roundtripHeader h = Inr h)
   \<and> (validateRequest r = Inr () \<and> dec (name r) = name r
      \<longrightarrow> roundtripRequest dec r = Inr r)
   \<and> (validateResponse p = Inr () \<and> is_u64 (ttlHours p)
        \<and> domainLength p = int (length (domain p)) \<and> is_u32 (domainLength p)
        \<and> dec (domain p) = domain p
      \<longrightarrow> roundtripResponse dec p = Inr p)
   \<and> (is_u64 (ingress m) \<and> is_u64 (egress m) \<and> is_u64 (uptime m)
        \<and> is_u64 (connectionCount m) \<and> is_u32 (activeConnections m)
      \<longrightarrow> roundtripMetrics m = Inr m)"
  using roundtripHeader_ok [of h] roundtripRequest_ok [of r dec]
    roundtripResponse_ok [of p dec] roundtripMetrics_ok [of m]
  by blast


theorem roundtrip_valid_witness:
  "validateHeader (new_Header MessageType_Ack 420) = Inr ()
   \<and> is_u8 (type (new_Header MessageType_Ack 420))
   \<and> roundtripHeader (new_Header MessageType_Ack 420) = Inr (new_Header MessageType_Ack 420)
   \<and> validateRequest (new_Request ProtoType_TCP [104, 101, 108, 108, 111]) = Inr ()
   \<and> roundtripRequest id (new_Request ProtoType_TCP [104, 101, 108, 108, 111])
        = Inr (new_Request ProtoType_TCP [104, 101, 108, 108, 111])
   \<and> validateResponse (new_Response StatusCode_OK 60000 [116, 101, 115, 116]) = Inr ()
   \<and> roundtripResponse id (new_Response StatusCode_OK 60000 [116, 101, 115, 116])
        = Inr (new_Response StatusCode_OK 60000 [116, 101, 115, 116])
   \<and> roundtripMetrics \<lparr>ingress = 420, egress = 69, uptime = 20000, connectionCount = 111,
          activeConnections = 222\<rparr>
        = Inr \<lparr>ingress = 420, egress = 69, uptime = 20000, connectionCount = 111,
          activeConnections = 222\<rparr>"
proof -
  have h: "validateHeader (new_Header MessageType_Ack 420) = Inr ()"
    "is_u8 (type (new_Header MessageType_Ack 420))"
    "is_u8 (flags (new_Header MessageType_Ack 420))"
    "0 \<le> length' (new_Header MessageType_Ack 420)"
    by (simp_all add: validateHeader_def new_Header_def is_u8_def proto_consts)
  have r: "validateRequest (new_Request ProtoType_TCP [104, 101, 108, 108, 111]) = Inr ()"
    "id (name (new_Request ProtoType_TCP [104, 101, 108, 108, 111]))
       = name (new_Request ProtoType_TCP [104, 101, 108, 108, 111])"
    by (simp_all add: validateRequest_def new_Request_def proto_consts)
  have p: "validateResponse (new_Response StatusCode_OK 60000 [116, 101, 115, 116]) = Inr ()"
    "is_u64 (ttlHours (new_Response StatusCode_OK 60000 [116, 101, 115, 116]))"
    "domainLength (new_Response StatusCode_OK 60000 [116, 101, 115, 116])
       = int (length (domain (new_Response StatusCode_OK 60000 [116, 101, 115, 116])))"
    "is_u32 (domainLength (new_Response StatusCode_OK 60000 [116, 101, 115, 116]))"
    "id (domain (new_Response StatusCode_OK 60000 [116, 101, 115, 116]))
       = domain (new_Response StatusCode_OK 60000 [116, 101, 115, 116])"
    by (simp_all add: validateResponse_def new_Response_def is_u64_def is_u32_def proto_consts)
  have m: "is_u64 (ingress \<lparr>ingress = 420, egress = 69, uptime = 20000,
             connectionCount = 111, activeConnections = 222\<rparr>)"
    "is_u64 (egress \<lparr>ingress = 420, egress = 69, uptime = 20000,
             connectionCount = 111, activeConnections = 222\<rparr>)"
    "is_u64 (uptime \<lparr>ingress = 420, egress = 69, uptime = 20000,
             connectionCount = 111, activeConnections = 222\<rparr>)"
    "is_u64 (connectionCount \<lparr>ingress = 420, egress = 69, uptime = 20000,
             connectionCount = 111, activeConnections = 222\<rparr>)"
    "is_u32 (activeConnections \<lparr>ingress = 420, egress = 69, uptime = 20000,
             connectionCount = 111, activeConnections = 222\<rparr>)"
    by (simp_all add: is_u64_def is_u32_def)
  from h r p m
    roundtrip_valid [of "new_Header MessageType_Ack 420"
      "new_Request ProtoType_TCP [104, 101, 108, 108, 111]" id
      "new_Response StatusCode_OK 60000 [116, 101, 115, 116]"
      "\<lparr>ingress = 420, egress = 69, uptime = 20000, connectionCount = 111,
        activeConnections = 222\<rparr>"]
  show ?thesis by blast
qed

text \<open>
  C1 as stated fails: \<^verbatim>\<open>validateResponse\<close> looks at the domain fields only when the
  status is OK, so a Response with status NameTaken, an empty domain and
  \<^verbatim>\<open>domainLength = 5\<close> passes it, is serialized into 13 bytes that declare 5 more, and is
  refused by \<^verbatim>\<open>deserializeResponse\<close> as truncated.
\<close>

theorem roundtrip_Response_counterexample:
  "validateResponse \<lparr>status = StatusCode_NameTaken, ttlHours = 0, domainLength = 5, domain = []\<rparr>
     = Inr ()
   \<and> roundtripResponse id
       \<lparr>status = StatusCode_NameTaken, ttlHours = 0, domainLength = 5, domain = []\<rparr>
     = Inl InsufficientData"
  by (simp add: validateResponse_def roundtripResponse_def serializeResponse_wire
      deserializeResponse_def wire_reads RESPONSE_SIZE_def Let_def proto_consts)

text \<open>
  Further values that pass their validator and do not come back: a non-OK Response whose
  length field is smaller than its domain, a Header whose flags do not fit a byte, a
  Header of negative length, and a Metrics counter of \<open>2^64\<close>.
\<close>

lemma roundtrip_Response_drops_domain:
  "validateResponse \<lparr>status = StatusCode_NameTaken, ttlHours = 0, domainLength = 0, domain = [97]\<rparr>
     = Inr ()
   \<and> roundtripResponse id
       \<lparr>status = StatusCode_NameTaken, ttlHours = 0, domainLength = 0, domain = [97]\<rparr>
     = Inr \<lparr>status = StatusCode_NameTaken, ttlHours = 0, domainLength = 0, domain = []\<rparr>"
  by (simp add: validateResponse_def roundtripResponse_def serializeResponse_wire
      deserializeResponse_def wire_reads RESPONSE_SIZE_def Let_def proto_consts
      subarray_def new_Response_def)

lemma roundtripHeader_wraps_flags:
  "validateHeader ((new_Header MessageType_Ack 0)\<lparr>flags := 256\<rparr>) = Inr ()
   \<and> roundtripHeader ((new_Header MessageType_Ack 0)\<lparr>flags := 256\<rparr>)
       = Inr (new_Header MessageType_Ack 0)"
  by (simp add: validateHeader_def roundtripHeader_def serializeHeader_wire
      deserializeHeader_def wire_reads HEADER_SIZE_def Let_def proto_consts new_Header_def)

lemma roundtripHeader_negative_length:
  "validateHeader (new_Header MessageType_Ack (- 1)) = Inr ()
   \<and> roundtripHeader (new_Header MessageType_Ack (- 1)) = Inl PayloadTooLarge"
  by (simp add: validateHeader_def roundtripHeader_def serializeHeader_wire
      deserializeHeader_def wire_reads HEADER_SIZE_def Let_def proto_consts new_Header_def)

lemma roundtripMetrics_wraps:
  "roundtripMetrics \<lparr>ingress = 2 ^ 64, egress = 0, uptime = 0, connectionCount = 0,
      activeConnections = 0\<rparr>
   = Inr \<lparr>ingress = 0, egress = 0, uptime = 0, connectionCount = 0, activeConnections = 0\<rparr>"
  by (simp add: roundtripMetrics_def serializeMetrics_wire deserializeMetrics_def wire_reads
      METRICS_SIZE_def)

section \<open>Framing errors of the header\<close>

lemma validateHeader_cases:
  "validateHeader h =
     (if version h \<noteq> VERSION then Inl InvalidVersion
      else if length' h > MAX_PAYLOAD_SIZE then Inl PayloadTooLarge
      else if reserved h \<noteq> 0 then Inl ReservedNonZero
      else Inr ())"
  by (simp add: validateHeader_def)

lemma serializeHeader_cases:
  "serializeHeader h =
     (if version h \<noteq> VERSION then Inl InvalidVersion
      else if length' h > MAX_PAYLOAD_SIZE then Inl PayloadTooLarge
      else if reserved h \<noteq> 0 then Inl ReservedNonZero
      else Inr (Header_wire h))"
  by (simp add: serializeHeader_wire validateHeader_def)

lemma deserializeHeader_wire_cases:
  assumes "is_u8 (version h)" "is_u8 (type h)" "is_u8 (flags h)" "is_u64 (length' h)"
    "is_u8 (reserved h)"
  shows "deserializeHeader (Header_wire h) =
     (if version h \<noteq> VERSION then Inl InvalidVersion
      else if length' h > MAX_PAYLOAD_SIZE then Inl PayloadTooLarge
      else if reserved h \<noteq> 0 then Inl ReservedNonZero
      else Inr h)"
  using assms by (simp add: deserializeHeader_wire validateHeader_def)

lemma getUint8_nth: "off < length buf \<Longrightarrow> getUint8 buf off = uint (buf ! off)"
  by (simp add: getUint8_def subarray_def take_Suc_conv_app_nth)

lemma deserializeHeader_first_byte:
  assumes "length b = 12" "b ! 0 \<noteq> 16"
  shows "deserializeHeader b = Inl InvalidVersion"
proof -
  from assms have "getUint8 b 0 = uint (b ! 0)" by (simp add: getUint8_nth)
  moreover have "uint (b ! 0) \<noteq> 16"
  proof
    assume "uint (b ! 0) = 16"
    then have "word_of_int (uint (b ! 0)) = (word_of_int 16 :: byte)" by simp
    with assms show False by simp
  qed
  ultimately show ?thesis
    using assms by (simp add: deserializeHeader_def validateHeader_def HEADER_SIZE_def
        new_Header_def VERSION_def Let_def)
qed


text \<open>
  C2 (amended). \<^verbatim>\<open>serializeHeader(h)\<close> fails exactly when an invariant of \<open>h\<close> is
  violated, and so does \<^verbatim>\<open>deserializeHeader\<close> on the 12 bytes that encode \<open>h\<close> when the
  fields of \<open>h\<close> lie in the ranges of their wire fields. The error is that of the first
  violated invariant in the order of \<^verbatim>\<open>validateHeader\<close>: version (InvalidVersion), length
  above \<open>MAX_PAYLOAD_SIZE = 1048576\<close> (PayloadTooLarge), reserved (ReservedNonZero).
  Twelve bytes whose first is not \<open>0x10\<close> fail with InvalidVersion; a header with a
  non-zero reserved field whose version and length are valid fails with ReservedNonZero.
\<close>

theorem header_framing_errors:
  "MAX_PAYLOAD_SIZE = 1048576
   \<and> (isl (serializeHeader h)
        \<longleftrightarrow> version h \<noteq> VERSION \<or> length' h > MAX_PAYLOAD_SIZE \<or> reserved h \<noteq> 0)
   \<and> serializeHeader h =
       (if version h \<noteq> VERSION then Inl InvalidVersion
        else if length' h > MAX_PAYLOAD_SIZE then Inl PayloadTooLarge
        else if reserved h \<noteq> 0 then Inl ReservedNonZero
        else Inr (Header_wire h))
   \<and> (is_u8 (version h) \<and> is_u8 (type h) \<and> is_u8 (flags h) \<and> is_u64 (length' h)
        \<and> is_u8 (reserved h)
      \<longrightarrow> deserializeHeader (Header_wire h) =
          (if version h \<noteq> VERSION then Inl InvalidVersion
           else if length' h > MAX_PAYLOAD_SIZE then Inl PayloadTooLarge
           else if reserved h \<noteq> 0 then Inl ReservedNonZero
           else Inr h))
   \<and> (length b = 12 \<and> b ! 0 \<noteq> 16 \<longrightarrow> deserializeHeader b = Inl InvalidVersion)
   \<and> (version h = VERSION \<and> length' h \<le> MAX_PAYLOAD_SIZE \<and> reserved h \<noteq> 0
      \<longrightarrow> serializeHeader h = Inl ReservedNonZero)"
  using deserializeHeader_wire_cases [of h] deserializeHeader_first_byte [of b]
  by (simp add: serializeHeader_cases MAX_PAYLOAD_SIZE_def)

theorem header_framing_errors_witness:
  "is_u8 (version ((new_Header MessageType_Ack 420)\<lparr>reserved := 1\<rparr>))
   \<and> is_u8 (reserved ((new_Header MessageType_Ack 420)\<lparr>reserved := 1\<rparr>))
   \<and> reserved ((new_Header MessageType_Ack 420)\<lparr>reserved := 1\<rparr>) \<noteq> 0
   \<and> serializeHeader ((new_Header MessageType_Ack 420)\<lparr>reserved := 1\<rparr>) = Inl ReservedNonZero
   \<and> deserializeHeader (Header_wire ((new_Header MessageType_Ack 420)\<lparr>reserved := 1\<rparr>))
       = Inl ReservedNonZero
   \<and> length [17, 4, 0, 0, 0, 0, 0, 0, 0, 0, 0, 0 :: byte] = 12
   \<and> [17, 4, 0, 0, 0, 0, 0, 0, 0, 0, 0, 0 :: byte] ! 0 \<noteq> 16
   \<and> deserializeHeader [17, 4, 0, 0, 0, 0, 0, 0, 0, 0, 0, 0] = Inl InvalidVersion"
proof -
  have r: "is_u8 (version ((new_Header MessageType_Ack 420)\<lparr>reserved := 1\<rparr>))"
    "is_u8 (type ((new_Header MessageType_Ack 420)\<lparr>reserved := 1\<rparr>))"
    "is_u8 (flags ((new_Header MessageType_Ack 420)\<lparr>reserved := 1\<rparr>))"
    "is_u64 (length' ((new_Header MessageType_Ack 420)\<lparr>reserved := 1\<rparr>))"
    "is_u8 (reserved ((new_Header MessageType_Ack 420)\<lparr>reserved := 1\<rparr>))"
    by (simp_all add: new_Header_def is_u8_def is_u64_def proto_consts)
  have v: "version ((new_Header MessageType_Ack 420)\<lparr>reserved := 1\<rparr>) = VERSION"
    "length' ((new_Header MessageType_Ack 420)\<lparr>reserved := 1\<rparr>) \<le> MAX_PAYLOAD_SIZE"
    "reserved ((new_Header MessageType_Ack 420)\<lparr>reserved := 1\<rparr>) \<noteq> 0"
    by (simp_all add: new_Header_def proto_consts)
  have b: "length [17, 4, 0, 0, 0, 0, 0, 0, 0, 0, 0, 0 :: byte] = 12"
    "[17, 4, 0, 0, 0, 0, 0, 0, 0, 0, 0, 0 :: byte] ! 0 \<noteq> 16"
    by simp_all
  from r v b
    header_framing_errors [of "(new_Header MessageType_Ack 420)\<lparr>reserved := 1\<rparr>"
      "[17, 4, 0, 0, 0, 0, 0, 0, 0, 0, 0, 0]"]
  show ?thesis by (simp del: length_Cons nth_Cons_0 list.size)
qed

text \<open>
  C2 as stated fails. A header with a non-zero reserved field does not always fail with
  ReservedNonZero: \<^verbatim>\<open>validateHeader\<close> looks at the version first and at the length
  second, so version 17 gives InvalidVersion and a length of \<open>2^21\<close> gives
  PayloadTooLarge. And the two directions do not fail on the same headers when a field
  is outside its wire range: a header of length \<open>-1\<close> violates no invariant and is
  serialized, but the twelve bytes carry the length \<open>2^64 - 1\<close> and are refused.
\<close>

theorem header_reserved_counterexample:
  "reserved ((new_Header MessageType_Ack 0)\<lparr>version := 17, reserved := 1\<rparr>) \<noteq> 0
   \<and> serializeHeader ((new_Header MessageType_Ack 0)\<lparr>version := 17, reserved := 1\<rparr>)
       = Inl InvalidVersion
   \<and> reserved ((new_Header MessageType_Ack 2097152)\<lparr>reserved := 1\<rparr>) \<noteq> 0
   \<and> serializeHeader ((new_Header MessageType_Ack 2097152)\<lparr>reserved := 1\<rparr>)
       = Inl PayloadTooLarge
   \<and> validateHeader (new_Header MessageType_Ack (- 1)) = Inr ()
   \<and> serializeHeader (new_Header MessageType_Ack (- 1))
       = Inr (Header_wire (new_Header MessageType_Ack (- 1)))
   \<and> deserializeHeader (Header_wire (new_Header MessageType_Ack (- 1))) = Inl PayloadTooLarge"
  by (simp add: serializeHeader_cases validateHeader_def deserializeHeader_def wire_reads
      HEADER_SIZE_def Let_def new_Header_def proto_consts)

section \<open>Conditional validation of the Response\<close>

lemma validateResponse_not_OK:
  "status p \<noteq> StatusCode_OK \<Longrightarrow>
   validateResponse p =
     (if status p = StatusCode_NameTaken \<or> status p = StatusCode_UnsupportedProto then Inr ()
      else Inl InvalidStatusCode)"
  by (simp add: validateResponse_def)

lemma validateResponse_OK:
  "status p = StatusCode_OK \<Longrightarrow>
   validateResponse p =
     (if domain p = [] \<or> domainLength p = 0 then Inl EmptyString
      else if domainLength p \<noteq> int (length (domain p)) then Inl InvalidLengthField
      else if domainLength p > MAX_STRING_LENGTH then Inl StringTooLong
      else Inr ())"
  by (simp add: validateResponse_def)

lemma deserializeResponse_empty_domain:
  assumes "dec [] = []" "is_u8 s" "is_u64 t"
  shows "deserializeResponse dec (Response_wire (new_Response s t [])) =
           (case validateResponse (new_Response s t []) of
              Inl e \<Rightarrow> Inl e | Inr _ \<Rightarrow> Inr (new_Response s t []))"
  using assms
  by (simp add: deserializeResponse_def wire_reads RESPONSE_SIZE_def Let_def new_Response_def
      subarray_def mod_id_u8 mod_id_u64 split: sum.splits)

text \<open>
  C5. \<^verbatim>\<open>validateResponse\<close> accepts status NameTaken with an empty domain and rejects
  status OK with an empty domain; when the status is not OK the result does not depend on
  the domain fields at all, and when it is OK the three domain checks (non-empty, length
  agreement, at most 4096) decide. \<^verbatim>\<open>serializeResponse\<close> and \<^verbatim>\<open>deserializeResponse\<close>
  accept and reject the same two responses.
\<close>

theorem validateResponse_conditional:
  "validateResponse \<lparr>status = StatusCode_NameTaken, ttlHours = t, domainLength = 0, domain = []\<rparr>
     = Inr ()
   \<and> validateResponse \<lparr>status = StatusCode_OK, ttlHours = t, domainLength = n, domain = []\<rparr>
     = Inl EmptyString
   \<and> (status p \<noteq> StatusCode_OK
      \<longrightarrow> validateResponse (p\<lparr>domainLength := n, domain := d\<rparr>) = validateResponse p)
   \<and> (status p = StatusCode_NameTaken \<or> status p = StatusCode_UnsupportedProto
      \<longrightarrow> validateResponse p = Inr ())
   \<and> (status p = StatusCode_OK
      \<longrightarrow> validateResponse p =
          (if domain p = [] \<or> domainLength p = 0 then Inl EmptyString
           else if domainLength p \<noteq> int (length (domain p)) then Inl InvalidLengthField
           else if domainLength p > 4096 then Inl StringTooLong
           else Inr ()))
   \<and> serializeResponse (new_Response StatusCode_NameTaken t [])
     = Inr (Response_wire (new_Response StatusCode_NameTaken t []))
   \<and> serializeResponse (new_Response StatusCode_OK t []) = Inl EmptyString
   \<and> (dec [] = [] \<and> is_u64 t
      \<longrightarrow> deserializeResponse dec (Response_wire (new_Response StatusCode_NameTaken t []))
          = Inr (new_Response StatusCode_NameTaken t [])
        \<and> deserializeResponse dec (Response_wire (new_Response StatusCode_OK t []))
          = Inl EmptyString)"
proof -
  have u: "is_u8 StatusCode_NameTaken" "is_u8 StatusCode_OK"
    by (simp_all add: is_u8_def proto_consts)
  have a: "validateResponse (new_Response StatusCode_NameTaken t []) = Inr ()"
    "validateResponse (new_Response StatusCode_OK t []) = Inl EmptyString"
    by (simp_all add: validateResponse_def new_Response_def proto_consts)
  show ?thesis
    using deserializeResponse_empty_domain [OF _ u(1), of dec t]
      deserializeResponse_empty_domain [OF _ u(2), of dec t]
      validateResponse_OK [of p] a
    by (auto simp: validateResponse_not_OK validateResponse_OK serializeResponse_wire
        proto_consts)
qed

theorem validateResponse_conditional_witness:
  "status (new_Response StatusCode_UnsupportedProto 0 []) \<noteq> StatusCode_OK
   \<and> validateResponse
       ((new_Response StatusCode_UnsupportedProto 0 [])\<lparr>domainLength := 7, domain := []\<rparr>)
       = Inr ()
   \<and> id [] = ([] :: utf8) \<and> is_u64 0
   \<and> deserializeResponse id (Response_wire (new_Response StatusCode_NameTaken 0 []))
       = Inr (new_Response StatusCode_NameTaken 0 [])
   \<and> deserializeResponse id (Response_wire (new_Response StatusCode_OK 0 []))
       = Inl EmptyString
   \<and> status \<lparr>status = StatusCode_OK, ttlHours = 0, domainLength = 2, domain = [97]\<rparr>
       = StatusCode_OK
   \<and> validateResponse \<lparr>status = StatusCode_OK, ttlHours = 0, domainLength = 2, domain = [97]\<rparr>
       = Inl InvalidLengthField"
proof -
  have s: "status (new_Response StatusCode_UnsupportedProto 0 []) \<noteq> StatusCode_OK"
    "status (new_Response StatusCode_UnsupportedProto 0 []) = StatusCode_NameTaken
     \<or> status (new_Response StatusCode_UnsupportedProto 0 []) = StatusCode_UnsupportedProto"
    by (simp_all add: new_Response_def proto_consts)
  have d: "id [] = ([] :: utf8)" "is_u64 0"
    by (simp_all add: is_u64_def)
  have o: "status \<lparr>status = StatusCode_OK, ttlHours = 0, domainLength = 2, domain = [97]\<rparr>
       = StatusCode_OK"
    by simp
  have a: "status (new_Response StatusCode_UnsupportedProto 0 []) \<noteq> StatusCode_OK
   \<and> validateResponse
       ((new_Response StatusCode_UnsupportedProto 0 [])\<lparr>domainLength := 7, domain := []\<rparr>)
       = Inr ()
   \<and> id [] = ([] :: utf8) \<and> is_u64 0
   \<and> deserializeResponse id (Response_wire (new_Response StatusCode_NameTaken 0 []))
       = Inr (new_Response StatusCode_NameTaken 0 [])
   \<and> deserializeResponse id (Response_wire (new_Response StatusCode_OK 0 []))
       = Inl EmptyString"
    using s d
      validateResponse_conditional
        [of 0 7 "new_Response StatusCode_UnsupportedProto 0 []" "[]" id]
    by simp
  have b: "validateResponse \<lparr>status = StatusCode_OK, ttlHours = 0, domainLength = 2, domain = [97]\<rparr>
       = Inl InvalidLengthField"
    using o
      validateResponse_conditional
        [of 0 0 "\<lparr>status = StatusCode_OK, ttlHours = 0, domainLength = 2, domain = [97]\<rparr>" "[]" id]
    by simp
  from a b o show ?thesis by blast
qed

section \<open>Buffers longer than the message\<close>

lemma deserializeHeader_take:
  assumes "HEADER_SIZE \<le> length b"
  shows "deserializeHeader (take HEADER_SIZE b) = deserializeHeader b"
  using assms
  by (simp add: deserializeHeader_def HEADER_SIZE_def getUint8_take getBigUint64_take)

lemma deserializeHeader_size_error:
  "deserializeHeader b = Inl InvalidHeaderSize \<longleftrightarrow> length b < HEADER_SIZE"
  by (auto simp: deserializeHeader_def validateHeader_def Let_def split: sum.splits if_splits)

lemma deserializeRequest_take:
  assumes "Request_declared_size b \<le> length b"
  shows "deserializeRequest dec (take (Request_declared_size b) b) = deserializeRequest dec b"
  using assms
  by (simp add: deserializeRequest_def Request_declared_size_def REQUEST_SIZE_def Let_def
      getUint8_take getUint32_take subarray_take split: sum.splits)

lemma deserializeRequest_size_error:
  "deserializeRequest dec b \<in> {Inl InvalidRequestSize, Inl InsufficientData}
   \<longleftrightarrow> length b < REQUEST_SIZE \<or> length b < Request_declared_size b"
  by (auto simp: deserializeRequest_def validateRequest_def Request_declared_size_def Let_def
      split: sum.splits if_splits)

lemma deserializeResponse_take:
  assumes "Response_declared_size b \<le> length b"
  shows "deserializeResponse dec (take (Response_declared_size b) b) = deserializeResponse dec b"
  using assms
  by (simp add: deserializeResponse_def Response_declared_size_def RESPONSE_SIZE_def Let_def
      getUint8_take getUint32_take getBigUint64_take subarray_take split: sum.splits)

lemma deserializeResponse_size_error:
  "deserializeResponse dec b \<in> {Inl InvalidResponseSize, Inl InsufficientData}
   \<longleftrightarrow> length b < RESPONSE_SIZE \<or> length b < Response_declared_size b"
  by (auto simp: deserializeResponse_def validateResponse_def Response_declared_size_def Let_def
      split: sum.splits if_splits)

lemma deserializeMetrics_take:
  assumes "METRICS_SIZE \<le> length b"
  shows "deserializeMetrics (take METRICS_SIZE b) = deserializeMetrics b"
  using assms
  by (simp add: deserializeMetrics_def METRICS_SIZE_def getUint32_take getBigUint64_take)

lemma deserializeMetrics_error:
  "isl (deserializeMetrics b) \<longleftrightarrow> length b < METRICS_SIZE"
  "isl (deserializeMetrics b) \<longleftrightarrow> deserializeMetrics b = Inl InvalidMetricsSize"
  by (simp_all add: deserializeMetrics_def)

text \<open>
  C8. Each deserializer returns on a buffer at least as long as the size it declares what
  it returns on the prefix of exactly that size, so trailing bytes are ignored; and it
  rejects a buffer for its size (\<^verbatim>\<open>invalid ... size\<close>, \<^verbatim>\<open>insufficient data\<close>) exactly when
  the buffer is shorter than the fixed part or than the declared size. For Metrics, which
  has no validator, that is the only rejection.
\<close>

theorem deserializers_ignore_trailing_bytes:
  "(HEADER_SIZE \<le> length bh
      \<longrightarrow> deserializeHeader bh = deserializeHeader (take HEADER_SIZE bh))
   \<and> (deserializeHeader bh = Inl InvalidHeaderSize \<longleftrightarrow> length bh < HEADER_SIZE)
   \<and> (Request_declared_size bq \<le> length bq
      \<longrightarrow> deserializeRequest dec bq = deserializeRequest dec (take (Request_declared_size bq) bq))
   \<and> (deserializeRequest dec bq \<in> {Inl InvalidRequestSize, Inl InsufficientData}
      \<longleftrightarrow> length bq < REQUEST_SIZE \<or> length bq < Request_declared_size bq)
   \<and> (Response_declared_size bp \<le> length bp
      \<longrightarrow> deserializeResponse dec bp
          = deserializeResponse dec (take (Response_declared_size bp) bp))
   \<and> (deserializeResponse dec bp \<in> {Inl InvalidResponseSize, Inl InsufficientData}
      \<longleftrightarrow> length bp < RESPONSE_SIZE \<or> length bp < Response_declared_size bp)
   \<and> (METRICS_SIZE \<le> length bm
      \<longrightarrow> deserializeMetrics bm = deserializeMetrics (take METRICS_SIZE bm))
   \<and> (isl (deserializeMetrics bm) \<longleftrightarrow> length bm < METRICS_SIZE)"
  using deserializeHeader_take [of bh] deserializeHeader_size_error [of bh]
    deserializeRequest_take [of bq dec] deserializeRequest_size_error [of dec bq]
    deserializeResponse_take [of bp dec] deserializeResponse_size_error [of dec bp]
    deserializeMetrics_take [of bm] deserializeMetrics_error(1) [of bm]
  by simp


theorem deserializers_ignore_trailing_bytes_witness:
  "HEADER_SIZE \<le> length [16, 4, 0, 0, 0, 0, 0, 0, 0, 1, 164, 0, 255, 255 :: byte]
   \<and> deserializeHeader [16, 4, 0, 0, 0, 0, 0, 0, 0, 1, 164, 0, 255, 255]
       = deserializeHeader (take HEADER_SIZE [16, 4, 0, 0, 0, 0, 0, 0, 0, 1, 164, 0, 255, 255])
   \<and> Request_declared_size [2, 0, 0, 0, 2, 104, 105, 255]
       \<le> length [2, 0, 0, 0, 2, 104, 105, 255 :: byte]
   \<and> deserializeRequest id [2, 0, 0, 0, 2, 104, 105, 255]
       = deserializeRequest id
           (take (Request_declared_size [2, 0, 0, 0, 2, 104, 105, 255])
              [2, 0, 0, 0, 2, 104, 105, 255])
   \<and> Response_declared_size [3, 0, 0, 0, 0, 0, 0, 0, 0, 0, 0, 0, 0, 255]
       \<le> length [3, 0, 0, 0, 0, 0, 0, 0, 0, 0, 0, 0, 0, 255 :: byte]
   \<and> deserializeResponse id [3, 0, 0, 0, 0, 0, 0, 0, 0, 0, 0, 0, 0, 255]
       = deserializeResponse id
           (take (Response_declared_size [3, 0, 0, 0, 0, 0, 0, 0, 0, 0, 0, 0, 0, 255])
              [3, 0, 0, 0, 0, 0, 0, 0, 0, 0, 0, 0, 0, 255])
   \<and> METRICS_SIZE \<le> length (replicate 40 (0 :: byte))
   \<and> deserializeMetrics (replicate 40 0)
       = deserializeMetrics (take METRICS_SIZE (replicate 40 0))"
proof -
  have h: "HEADER_SIZE \<le> length [16, 4, 0, 0, 0, 0, 0, 0, 0, 1, 164, 0, 255, 255 :: byte]"
    by (simp add: HEADER_SIZE_def)
  have q: "Request_declared_size [2, 0, 0, 0, 2, 104, 105, 255]
       \<le> length [2, 0, 0, 0, 2, 104, 105, 255 :: byte]"
    by (simp add: Request_declared_size_def REQUEST_SIZE_def getUint32_def subarray_def
        be_int_def)
  have p: "Response_declared_size [3, 0, 0, 0, 0, 0, 0, 0, 0, 0, 0, 0, 0, 255]
       \<le> length [3, 0, 0, 0, 0, 0, 0, 0, 0, 0, 0, 0, 0, 255 :: byte]"
    by (simp add: Response_declared_size_def RESPONSE_SIZE_def getUint32_def subarray_def
        be_int_def)
  have m: "METRICS_SIZE \<le> length (replicate 40 (0 :: byte))"
    by (simp add: METRICS_SIZE_def)
  from h q p m
    deserializers_ignore_trailing_bytes
      [of "[16, 4, 0, 0, 0, 0, 0, 0, 0, 1, 164, 0, 255, 255]"
          "[2, 0, 0, 0, 2, 104, 105, 255]" id
          "[3, 0, 0, 0, 0, 0, 0, 0, 0, 0, 0, 0, 0, 255]" "replicate 40 0"]
  show ?thesis by blast
qed

lemma deserializeHeader_trailing_example:
  "deserializeHeader [16, 4, 0, 0, 0, 0, 0, 0, 0, 1, 164, 0, 255, 255]
     = Inr (new_Header MessageType_Ack 420)"
  by (simp add: deserializeHeader_def validateHeader_def new_Header_def getUint8_def
      getBigUint64_def subarray_def be_int_def proto_consts)

section \<open>The framed reader\<close>

declare onReadable.simps [simp del]

lemma onReadable_not_ended:
  assumes "\<not> ended st"
  shows "onReadable n buf st =
     (if n \<le> length buf \<or> length (buffered st) < n - length buf then (NeedMore buf, st)
      else (Complete (buf @ take (n - length buf) (buffered st)),
            st\<lparr>buffered := drop (n - length buf) (buffered st)\<rparr>))"
  using assms by (subst onReadable.simps) (auto simp: stream_read_def)

lemma onReadable_ended_short:
  assumes "ended st" "length buf + length (buffered st) < n"
  shows "onReadable n buf st = (NeedMore (buf @ buffered st), st\<lparr>buffered := []\<rparr>)"
proof -
  from assms have k: "n - length buf \<noteq> 0" "\<not> n - length buf \<le> length (buffered st)"
    "n - (length buf + length (buffered st)) \<noteq> 0" "length buf + length (buffered st) \<noteq> n"
    by arith+
  show ?thesis
  proof (cases "buffered st = []")
    case True
    with assms k show ?thesis
      by (subst onReadable.simps) (simp add: stream_read_def)
  next
    case False
    have "onReadable n (buf @ buffered st) (st\<lparr>buffered := []\<rparr>)
            = (NeedMore (buf @ buffered st), st\<lparr>buffered := []\<rparr>)"
      using assms k by (subst onReadable.simps) (simp add: stream_read_def)
    with False assms k show ?thesis
      by (subst onReadable.simps) (simp add: stream_read_def)
  qed
qed

lemma onReadable_zero: "onReadable 0 [] st = (NeedMore [], st)"
  by (subst onReadable.simps) (simp add: stream_read_def)

lemma readN_events_zero: "fst (readN_events 0 [] st evs) \<noteq> Resolved b"
proof (induction evs arbitrary: st)
  case Nil
  show ?case by simp
next
  case (Cons ev evs)
  show ?case
    using Cons.IH
    by (cases ev) (auto simp: onReadable_zero settle_def)
qed

lemma readN_zero: "fst (readN st 0) \<noteq> Resolved b"
  using readN_events_zero [of st "script st" b]
  by (auto simp: readN_def onReadable_zero settle_def)

lemma readN_events_chunks:
  assumes "\<not> ended st" "0 < n" "length (buffered st) < n"
    "n \<le> length (buffered st) + length (concat cs)"
  shows "\<exists>st' cs'. readN_events n [] st (map Chunk cs @ rest)
             = (Resolved (take n (buffered st @ concat cs)), st')
           \<and> \<not> ended st' \<and> script st' = map Chunk cs' @ rest
           \<and> buffered st' @ concat cs' = drop n (buffered st @ concat cs)
           \<and> written st' = written st \<and> closed st' = closed st"
  using assms
proof (induction cs arbitrary: st)
  case Nil
  then show ?case by simp
next
  case (Cons c cs)
  let ?st1 = "st\<lparr>buffered := buffered st @ c\<rparr>"
  have ne: "\<not> ended ?st1" using Cons.prems by simp
  show ?case
  proof (cases "length (buffered st @ c) < n")
    case True
    then have "onReadable n [] ?st1 = (NeedMore [], ?st1)"
      using ne by (simp add: onReadable_not_ended)
    then have step: "readN_events n [] st (map Chunk (c # cs) @ rest)
                 = readN_events n [] ?st1 (map Chunk cs @ rest)"
      using ne by (simp add: settle_def)
    have "\<exists>st' cs'. readN_events n [] ?st1 (map Chunk cs @ rest)
             = (Resolved (take n (buffered ?st1 @ concat cs)), st')
           \<and> \<not> ended st' \<and> script st' = map Chunk cs' @ rest
           \<and> buffered st' @ concat cs' = drop n (buffered ?st1 @ concat cs)
           \<and> written st' = written ?st1 \<and> closed st' = closed ?st1"
      using True Cons.prems by (intro Cons.IH) simp_all
    with step show ?thesis by simp
  next
    case False
    then have "onReadable n [] ?st1
        = (Complete (take n (buffered st @ c)), ?st1\<lparr>buffered := drop n (buffered st @ c)\<rparr>)"
      using ne Cons.prems by (simp add: onReadable_not_ended)
    then have "readN_events n [] st (map Chunk (c # cs) @ rest)
        = (Resolved (take n (buffered st @ c)),
           ?st1\<lparr>buffered := drop n (buffered st @ c), script := map Chunk cs @ rest\<rparr>)"
      by (simp add: settle_def)
    moreover have "take n (buffered st @ c) = take n (buffered st @ concat (c # cs))"
      "drop n (buffered st @ c) @ concat cs = drop n (buffered st @ concat (c # cs))"
      using False by simp_all
    ultimately show ?thesis
      using Cons.prems
      by (intro exI [of _ "?st1\<lparr>buffered := drop n (buffered st @ c),
            script := map Chunk cs @ rest\<rparr>"] exI [of _ cs]) simp
  qed
qed

lemma readN_chunks:
  assumes "\<not> ended st" "0 < n" "script st = map Chunk cs @ rest"
    "n \<le> length (buffered st) + length (concat cs)"
  shows "\<exists>st' cs'. readN st n = (Resolved (take n (buffered st @ concat cs)), st')
           \<and> \<not> ended st' \<and> script st' = map Chunk cs' @ rest
           \<and> buffered st' @ concat cs' = drop n (buffered st @ concat cs)
           \<and> written st' = written st \<and> closed st' = closed st"
proof (cases "length (buffered st) < n")
  case True
  then have "onReadable n [] st = (NeedMore [], st)"
    using assms by (simp add: onReadable_not_ended)
  then have "readN st n = readN_events n [] st (map Chunk cs @ rest)"
    using assms by (simp add: readN_def settle_def)
  with readN_events_chunks [OF assms(1,2) True assms(4), of rest] show ?thesis by simp
next
  case False
  then have "onReadable n [] st
      = (Complete (take n (buffered st)), st\<lparr>buffered := drop n (buffered st)\<rparr>)"
    using assms by (simp add: onReadable_not_ended)
  then have "readN st n = (Resolved (take n (buffered st)), st\<lparr>buffered := drop n (buffered st)\<rparr>)"
    by (simp add: readN_def settle_def)
  with False assms show ?thesis
    by (intro exI [of _ "st\<lparr>buffered := drop n (buffered st)\<rparr>"] exI [of _ cs]) simp
qed

lemma readN_events_eof:
  assumes "\<not> ended st" "length (buffered st) + length (concat cs) < n"
  shows "readN_events n [] st (map Chunk cs @ Eof # rest)
           = (Rejected UnexpectedEof,
              st\<lparr>buffered := [], ended := True, script := rest\<rparr>)"
  using assms
proof (induction cs arbitrary: st)
  case Nil
  then have "onReadable n [] (st\<lparr>ended := True\<rparr>)
               = (NeedMore (buffered st), st\<lparr>ended := True, buffered := []\<rparr>)"
    using onReadable_ended_short [of "st\<lparr>ended := True\<rparr>" "[]" n] by simp
  then show ?case by (simp add: settle_def)
next
  case (Cons c cs)
  let ?st1 = "st\<lparr>buffered := buffered st @ c\<rparr>"
  from Cons.prems have "onReadable n [] ?st1 = (NeedMore [], ?st1)"
    by (simp add: onReadable_not_ended)
  then have "readN_events n [] st (map Chunk (c # cs) @ Eof # rest)
               = readN_events n [] ?st1 (map Chunk cs @ Eof # rest)"
    using Cons.prems by (simp add: settle_def)
  also have "\<dots> = (Rejected UnexpectedEof, ?st1\<lparr>buffered := [], ended := True, script := rest\<rparr>)"
    using Cons.prems by (intro Cons.IH) simp_all
  finally show ?case by simp
qed

lemma readN_eof:
  assumes "\<not> ended st" "script st = map Chunk cs @ Eof # rest"
    "length (buffered st) + length (concat cs) < n"
  shows "readN st n = (Rejected UnexpectedEof, st\<lparr>buffered := [], ended := True, script := rest\<rparr>)"
proof -
  from assms have "onReadable n [] st = (NeedMore [], st)"
    by (simp add: onReadable_not_ended)
  then have "readN st n = readN_events n [] st (map Chunk cs @ Eof # rest)"
    using assms by (simp add: readN_def settle_def)
  with readN_events_eof [OF assms(1,3), of rest] show ?thesis by simp
qed


lemma unread_chunks:
  "script st = map Chunk cs @ rest \<Longrightarrow>
   unread st = buffered st @ concat cs @ concat (map payload rest)"
  by (simp add: unread_def comp_def)

lemma readN_first_bytes:
  assumes "\<not> ended st" "0 < n" "script st = map Chunk cs @ rest"
    "n \<le> length (buffered st) + length (concat cs)"
  shows "\<exists>st'. readN st n = (Resolved (take n (unread st)), st')
           \<and> unread st' = drop n (unread st)"
proof -
  from readN_chunks [OF assms] obtain st' cs' where
    r: "readN st n = (Resolved (take n (buffered st @ concat cs)), st')"
    and s: "script st' = map Chunk cs' @ rest"
    and b: "buffered st' @ concat cs' = drop n (buffered st @ concat cs)"
    by blast
  have "unread st' = (buffered st' @ concat cs') @ concat (map payload rest)"
    using s by (simp add: unread_chunks)
  also have "\<dots> = drop n (unread st)"
    using assms by (simp add: b unread_chunks)
  finally have "unread st' = drop n (unread st)" .
  moreover have "take n (buffered st @ concat cs) = take n (unread st)"
    using assms by (simp add: unread_chunks)
  ultimately show ?thesis using r by simp
qed

lemma readN_first_bytes_example:
  "readN (fresh_stream [Chunk [1, 2], Chunk [3], Chunk [4, 5, 6]]) 4
     = (Resolved [1, 2, 3, 4],
        \<lparr>buffered = [5, 6], ended = False, script = [], written = [], closed = False\<rparr>)"
  by (simp add: readN_def fresh_stream_def onReadable_not_ended settle_def)

lemma readN_eof_example:
  "readN (fresh_stream [Chunk [1, 2], Eof]) 4
     = (Rejected UnexpectedEof,
        \<lparr>buffered = [], ended = True, script = [], written = [], closed = False\<rparr>)"
  using readN_eof [of "fresh_stream [Chunk [1, 2], Eof]" "[[1, 2]]" "[]" 4]
  by (simp add: fresh_stream_def)

text \<open>
  C4. \<^verbatim>\<open>readN(stream, N)\<close> is to return exactly the first \<open>N\<close> bytes of the stream,
  however they are split into chunks, to consume no more than \<open>N\<close> bytes, and to fail
  with the end-of-stream error when the stream ends before \<open>N\<close> bytes have arrived.
  For every \<open>N \<ge> 1\<close> it does (lemmas \<open>readN_first_bytes\<close> and \<open>readN_eof\<close>).
  For \<open>N = 0\<close> it does not: \<^verbatim>\<open>readN(stream, 0)\<close> should return the empty buffer, but the
  loop asks for \<^verbatim>\<open>read(0)\<close>, which is null, and the length of \<open>buf\<close> is compared with \<open>n\<close>
  only after a chunk was appended. So the promise never resolves: it stays pending while
  data arrives, and is rejected when the stream ends.
\<close>

theorem readN_zero_never_resolves:
  "fst (readN st 0) \<noteq> Resolved b
   \<and> readN (fresh_stream [Chunk [1, 2, 3]]) 0
       = (Pending,
          \<lparr>buffered = [1, 2, 3], ended = False, script = [], written = [], closed = False\<rparr>)
   \<and> readN (fresh_stream [Eof]) 0
       = (Rejected UnexpectedEof,
          \<lparr>buffered = [], ended = True, script = [], written = [], closed = False\<rparr>)"
  using readN_zero [of st b]
  by (simp add: readN_def fresh_stream_def onReadable_zero settle_def)

section \<open>The handshake\<close>

lemma validateHeader_setFlag [simp]: "validateHeader (setFlag h f) = validateHeader h"
  by (simp add: validateHeader_def setFlag_def)

lemma readN_stream_write:
  "\<not> ended (stream_write b st) = (\<not> ended st)"
  "script (stream_write b st) = script st"
  "buffered (stream_write b st) = buffered st"
  by (simp_all add: stream_write_def)

lemma sendRequest_reply:
  assumes req: "validateRequest (new_Request (client_proto c) (client_name c)) = Inr ()"
    and st: "\<not> ended st" "script st = map Chunk cs @ rest"
      "buffered st @ concat cs = Header_wire h @ body"
    and h: "validateHeader h = Inr ()" "is_u8 (type h)" "is_u8 (flags h)" "0 \<le> length' h"
  shows "\<exists>st' cs'. sendRequest c st = (Resolved h, st')
           \<and> \<not> ended st' \<and> script st' = map Chunk cs' @ rest
           \<and> buffered st' @ concat cs' = body \<and> closed st' = closed st"
proof -
  let ?r = "new_Request (client_proto c) (client_name c)"
  let ?base = "new_Header MessageType_Request (int (length (Request_wire ?r)))"
  let ?hdr = "if metrics c then setFlag ?base FLAG_METRICS else ?base"
  define st0 where
    "st0 = stream_write (Request_wire ?r) (stream_write (Header_wire ?hdr) st)"
  have s0: "\<not> ended st0" "script st0 = map Chunk cs @ rest"
    "buffered st0 @ concat cs = Header_wire h @ body" "closed st0 = closed st"
    using st by (simp_all add: st0_def stream_write_def)
  from req have "length (name ?r) \<le> 4096"
    by (auto simp: validateRequest_def proto_consts split: if_splits)
  then have "validateHeader ?base = Inr ()"
    by (simp add: validateHeader_def new_Header_def wire_reads proto_consts)
  then have vh: "validateHeader ?hdr = Inr ()" by simp
  have n: "12 \<le> length (buffered st0) + length (concat cs)"
    using arg_cong [OF s0(3), of length] by (simp add: wire_reads)
  have "\<exists>st' cs'. readN st0 12 = (Resolved (take 12 (buffered st0 @ concat cs)), st')
           \<and> \<not> ended st' \<and> script st' = map Chunk cs' @ rest
           \<and> buffered st' @ concat cs' = drop 12 (buffered st0 @ concat cs)
           \<and> written st' = written st0 \<and> closed st' = closed st0"
    using s0 n by (intro readN_chunks) simp_all
  then obtain st' cs' where
    r: "readN st0 12 = (Resolved (take 12 (buffered st0 @ concat cs)), st')"
    and s: "\<not> ended st'" "script st' = map Chunk cs' @ rest"
      "buffered st' @ concat cs' = drop 12 (buffered st0 @ concat cs)"
      "closed st' = closed st0"
    by blast
  have t: "take 12 (buffered st0 @ concat cs) = Header_wire h"
    "drop 12 (buffered st0 @ concat cs) = body"
    by (simp_all add: s0(3) wire_reads)
  from h have d: "deserializeHeader (Header_wire h) = Inr h"
    using roundtripHeader_ok [of h] by (simp add: roundtripHeader_def serializeHeader_wire)
  have "sendRequest c st = (Resolved h, st')"
    using req vh r t d
    by (simp add: sendRequest_def serializeRequest_wire serializeHeader_wire Let_def
        HEADER_SIZE_def st0_def [symmetric] split: if_splits)
  with s t s0 show ?thesis by auto
qed

lemma handshake_reads:
  assumes req: "validateRequest (new_Request (client_proto c) (client_name c)) = Inr ()"
    and st: "\<not> ended st" "script st = map Chunk cs @ rest"
      "buffered st @ concat cs = Header_wire h @ body"
    and h: "validateHeader h = Inr ()" "is_u8 (type h)" "is_u8 (flags h)"
    and len: "length' h = int (length body)" "body \<noteq> []"
  shows "\<exists>st1 st2. sendRequest c st = (Resolved h, st1)
           \<and> readN st1 (nat (length' h)) = (Resolved body, st2)"
proof -
  from len have "0 \<le> length' h" by simp
  with sendRequest_reply [OF req st h] obtain st1 cs1 where
    a: "sendRequest c st = (Resolved h, st1)"
    and s: "\<not> ended st1" "script st1 = map Chunk cs1 @ rest" "buffered st1 @ concat cs1 = body"
    by blast
  have "length body \<le> length (buffered st1) + length (concat cs1)"
    using arg_cong [OF s(3), of length] by simp
  with s len have "\<exists>st2 cs2.
      readN st1 (length body) = (Resolved (take (length body) (buffered st1 @ concat cs1)), st2)
      \<and> \<not> ended st2 \<and> script st2 = map Chunk cs2 @ rest
      \<and> buffered st2 @ concat cs2 = drop (length body) (buffered st1 @ concat cs1)
      \<and> written st2 = written st1 \<and> closed st2 = closed st1"
    by (intro readN_chunks) simp_all
  then obtain st2 where
    "readN st1 (length body) = (Resolved (take (length body) (buffered st1 @ concat cs1)), st2)"
    by blast
  with s a len show ?thesis by simp
qed

lemma deserializeResponse_status:
  assumes "deserializeResponse dec b = Inr r"
  shows "status r = StatusCode_OK \<or> status r = StatusCode_NameTaken
         \<or> status r = StatusCode_UnsupportedProto"
    and "status r = getUint8 b 0"
  using assms
  by (auto simp: deserializeResponse_def validateResponse_def Let_def new_Response_def
      split: if_splits sum.splits)

lemma deserializeResponse_bad_status:
  assumes "getUint8 b 0 \<noteq> StatusCode_OK" "getUint8 b 0 \<noteq> StatusCode_NameTaken"
    "getUint8 b 0 \<noteq> StatusCode_UnsupportedProto"
  shows "deserializeResponse dec b
           \<in> {Inl InvalidResponseSize, Inl InsufficientData, Inl InvalidStatusCode}"
  using assms
  by (auto simp: deserializeResponse_def validateResponse_def Let_def new_Response_def
      split: if_splits sum.splits)


lemma getDomain_prettyPrint [simp]: "getDomain (prettyPrint line c) = getDomain c"
  by (simp add: getDomain_def prettyPrint_def)

lemma run_rejected_registration:
  assumes req: "validateRequest (new_Request (client_proto c) (client_name c)) = Inr ()"
    and st: "\<not> ended st" "script st = map Chunk cs @ rest"
      "buffered st @ concat cs = Header_wire h @ body"
    and h: "validateHeader h = Inr ()" "type h = MessageType_Response" "is_u8 (flags h)"
      "length' h = int (length body)" "body \<noteq> []"
    and r: "deserializeResponse dec body = Inr response"
      "status response = StatusCode_NameTaken \<or> status response = StatusCode_UnsupportedProto"
  shows "\<exists>st'. run dec Connected sess c st =
           (Resolves,
            prettyPrint (if status response = StatusCode_NameTaken then NameInUse (client_name c)
                         else ProtoNotSupported (client_proto c)) c,
            st')"
proof -
  from h have "is_u8 (type h)" by (simp add: is_u8_def proto_consts)
  with handshake_reads [OF req st h(1) _ h(3,4,5)] obtain st1 st2 where
    "sendRequest c st = (Resolved h, st1)" "readN st1 (nat (length' h)) = (Resolved body, st2)"
    by blast
  with h r show ?thesis
    by (auto simp: run_def handleConnection_def proto_consts)
qed

lemma run_unknown_status:
  assumes req: "validateRequest (new_Request (client_proto c) (client_name c)) = Inr ()"
    and st: "\<not> ended st" "script st = map Chunk cs @ rest"
      "buffered st @ concat cs = Header_wire h @ body"
    and h: "validateHeader h = Inr ()" "type h = MessageType_Response" "is_u8 (flags h)"
      "length' h = int (length body)" "body \<noteq> []"
    and s: "getUint8 body 0 \<noteq> StatusCode_OK" "getUint8 body 0 \<noteq> StatusCode_NameTaken"
      "getUint8 body 0 \<noteq> StatusCode_UnsupportedProto"
  shows "\<exists>e st'. run dec Connected sess c st = (RejectsWith e, c, st')
           \<and> e \<in> {InvalidResponseSize, InsufficientData, InvalidStatusCode}"
proof -
  from h have "is_u8 (type h)" by (simp add: is_u8_def proto_consts)
  with handshake_reads [OF req st h(1) _ h(3,4,5)] obtain st1 st2 where
    "sendRequest c st = (Resolved h, st1)" "readN st1 (nat (length' h)) = (Resolved body, st2)"
    by blast
  with h deserializeResponse_bad_status [OF s, of dec] show ?thesis
    by (auto simp: run_def handleConnection_def proto_consts)
qed

lemma run_registered:
  assumes req: "validateRequest (new_Request (client_proto c) (client_name c)) = Inr ()"
    and st: "\<not> ended st" "script st = map Chunk cs @ rest"
      "buffered st @ concat cs = Header_wire h @ body"
    and h: "validateHeader h = Inr ()" "type h = MessageType_Response" "is_u8 (flags h)"
      "length' h = int (length body)" "body \<noteq> []"
    and r: "deserializeResponse dec body = Inr response" "status response = StatusCode_OK"
  shows "\<exists>res st'. run dec Connected sess c st =
           (res,
            prettyPrint (TunnelCreated (protoString (client_proto c) @ domain response))
              (c\<lparr>client_domain := domain response\<rparr>),
            st')"
proof -
  from h have "is_u8 (type h)" by (simp add: is_u8_def proto_consts)
  with handshake_reads [OF req st h(1) _ h(3,4,5)] obtain st1 st2 where
    "sendRequest c st = (Resolved h, st1)" "readN st1 (nat (length' h)) = (Resolved body, st2)"
    by blast
  with h r show ?thesis
    by (cases sess) (auto simp: run_def handleConnection_def proto_consts Let_def)
qed

lemma handleConnection_domain:
  assumes "handleConnection dec sess c st = (p, a, c', st')"
  shows "getDomain c' =
           (case handshakeResponse dec c st of
              Some response \<Rightarrow>
                if status response = StatusCode_OK then domain response else getDomain c
            | None \<Rightarrow> getDomain c)"
proof (cases "sendRequest c st")
  case (Pair ph st1)
  show ?thesis
  proof (cases ph)
    case Pending
    with Pair assms show ?thesis
      by (auto simp: handleConnection_def handshakeResponse_def)
  next
    case (Rejected e)
    with Pair assms show ?thesis
      by (auto simp: handleConnection_def handshakeResponse_def)
  next
    case (Resolved hd)
    show ?thesis
    proof (cases "readN st1 (nat (length' hd))")
      case (Pair pb st2)
      show ?thesis
      proof (cases pb)
        case Pending
        with Pair \<open>sendRequest c st = (ph, st1)\<close> Resolved assms show ?thesis
          by (auto simp: handleConnection_def handshakeResponse_def split: if_splits)
      next
        case (Rejected e)
        with Pair \<open>sendRequest c st = (ph, st1)\<close> Resolved assms show ?thesis
          by (auto simp: handleConnection_def handshakeResponse_def split: if_splits)
      next
        case (Resolved buf)
        with Pair \<open>sendRequest c st = (ph, st1)\<close> \<open>ph = Resolved hd\<close> assms show ?thesis
          by (cases "deserializeResponse dec buf"; cases sess)
            (auto simp: handleConnection_def handshakeResponse_def getDomain_def Let_def
              prettyPrint_def proto_consts split: if_splits)
      qed
    qed
  qed
qed

lemma run_domain:
  assumes "run dec d sess c st = (r, c', st')"
  shows "getDomain c' =
           (case handshakeResponse dec c st of
              Some response \<Rightarrow>
                if d = Connected \<and> status response = StatusCode_OK then domain response
                else getDomain c
            | None \<Rightarrow> getDomain c)"
proof (cases d)
  case (DialError e)
  with assms show ?thesis by (auto simp: run_def split: option.splits)
next
  case Connected
  obtain p a c1 st1 where hc: "handleConnection dec sess c st = (p, a, c1, st1)"
    by (cases "handleConnection dec sess c st") auto
  with assms Connected have "c' = c1"
    by (auto simp: run_def split: if_splits promise.splits)
  with handleConnection_domain [OF hc] Connected show ?thesis
    by (simp split: option.splits)
qed

lemma new_Client_domain: "new_Client options = Inr c \<Longrightarrow> getDomain c = []"
  by (auto simp: new_Client_def getDomain_def split: if_splits)


lemma alpha_client_request:
  "validateRequest (new_Request (client_proto alpha_client) (client_name alpha_client)) = Inr ()"
  by (simp add: validateRequest_def new_Request_def alpha_client_def proto_consts)

lemma server_replies_stream:
  "\<not> ended (server_replies body)"
  "script (server_replies body) = map Chunk [Header_wire (reply_header body), body] @ []"
  "buffered (server_replies body) @ concat [Header_wire (reply_header body), body]
     = Header_wire (reply_header body) @ body"
  by (simp_all add: server_replies_def fresh_stream_def)

lemma reply_header_valid:
  assumes "length body \<le> 1048576"
  shows "validateHeader (reply_header body) = Inr ()"
    "type (reply_header body) = MessageType_Response"
    "is_u8 (flags (reply_header body))"
    "length' (reply_header body) = int (length body)"
  using assms
  by (simp_all add: reply_header_def new_Header_def validateHeader_def is_u8_def proto_consts)

text \<open>
  C6. The server answers the Request with a Response header and a body of the announced
  length, in any chunking. If the body deserializes to a Response with status NameTaken
  or UnsupportedProto, \<^verbatim>\<open>run()\<close> resolves, and the client it leaves is the client from
  before with exactly one more line printed: the notice that the name is in use, or
  that the protocol is not supported. Nothing else changes, so the domain stays as it
  was. If the status byte is none of OK, NameTaken and UnsupportedProto, \<^verbatim>\<open>run()\<close>
  rejects and the client is unchanged; the error is the framing error thrown by
  \<^verbatim>\<open>deserializeResponse\<close>.
\<close>

theorem run_on_rejected_or_unknown_status:
  assumes "validateRequest (new_Request (client_proto c) (client_name c)) = Inr ()"
    and "\<not> ended st" and "script st = map Chunk cs @ rest"
    and "buffered st @ concat cs = Header_wire h @ body"
    and "validateHeader h = Inr ()" and "type h = MessageType_Response"
    and "is_u8 (flags h)" and "length' h = int (length body)" and "body \<noteq> []"
  shows "(deserializeResponse dec body = Inr response
          \<and> (status response = StatusCode_NameTaken
              \<or> status response = StatusCode_UnsupportedProto)
        \<longrightarrow> (\<exists>st'. run dec Connected sess c st =
               (Resolves,
                c\<lparr>printed := printed c @
                     [if status response = StatusCode_NameTaken
                      then NameInUse (client_name c)
                      else ProtoNotSupported (client_proto c)]\<rparr>,
                st')))
     \<and> (getUint8 body 0 \<noteq> StatusCode_OK \<and> getUint8 body 0 \<noteq> StatusCode_NameTaken
          \<and> getUint8 body 0 \<noteq> StatusCode_UnsupportedProto
        \<longrightarrow> (\<exists>e st'. run dec Connected sess c st = (RejectsWith e, c, st')
               \<and> e \<in> {InvalidResponseSize, InsufficientData, InvalidStatusCode}))"
  using run_rejected_registration [OF assms, of dec response sess]
    run_unknown_status [OF assms, of dec sess]
  by (simp add: prettyPrint_def)

theorem run_on_rejected_or_unknown_status_witness:
  "(\<exists>st'. run id Connected StaysOpen alpha_client
            (server_replies (Response_wire (new_Response StatusCode_NameTaken 0 [])))
          = (Resolves,
             alpha_client\<lparr>printed := [NameInUse [97, 108, 112, 104, 97]]\<rparr>, st'))
   \<and> printed alpha_client = []
   \<and> getDomain (alpha_client\<lparr>printed := [NameInUse [97, 108, 112, 104, 97]]\<rparr>) = []
   \<and> (\<exists>e st'. run id Connected StaysOpen alpha_client
              (server_replies [9, 0, 0, 0, 0, 0, 0, 0, 0, 0, 0, 0, 0])
            = (RejectsWith e, alpha_client, st')
          \<and> e \<in> {InvalidResponseSize, InsufficientData, InvalidStatusCode})"
proof -
  let ?body = "Response_wire (new_Response StatusCode_NameTaken 0 [])"
  let ?bad = "[9, 0, 0, 0, 0, 0, 0, 0, 0, 0, 0, 0, 0] :: buffer"
  have l: "length ?body \<le> 1048576" "?body \<noteq> []"
    by (simp_all add: Response_wire_def new_Response_def)
  have d: "deserializeResponse id ?body = Inr (new_Response StatusCode_NameTaken 0 [])"
    using deserializeResponse_empty_domain [of id StatusCode_NameTaken 0]
    by (simp add: is_u64_def is_u8_def validateResponse_def new_Response_def proto_consts)
  have s: "status (new_Response StatusCode_NameTaken 0 []) = StatusCode_NameTaken"
    by (simp add: new_Response_def)
  have c: "printed alpha_client = []" "client_name alpha_client = [97, 108, 112, 104, 97]"
    "getDomain (alpha_client\<lparr>printed := [NameInUse [97, 108, 112, 104, 97]]\<rparr>) = []"
    by (simp_all add: alpha_client_def getDomain_def)
  have a: "\<exists>st'. run id Connected StaysOpen alpha_client (server_replies ?body)
          = (Resolves, alpha_client\<lparr>printed := [NameInUse [97, 108, 112, 104, 97]]\<rparr>, st')"
    using d s c
      run_on_rejected_or_unknown_status
        [OF alpha_client_request server_replies_stream [of ?body] reply_header_valid [OF l(1)]
          l(2), of id "new_Response StatusCode_NameTaken 0 []" StaysOpen]
    by simp
  have m: "length ?bad \<le> 1048576" "?bad \<noteq> []" by simp_all
  have g: "getUint8 ?bad 0 \<noteq> StatusCode_OK" "getUint8 ?bad 0 \<noteq> StatusCode_NameTaken"
    "getUint8 ?bad 0 \<noteq> StatusCode_UnsupportedProto"
    by (simp_all add: getUint8_def subarray_def proto_consts)
  have b: "\<exists>e st'. run id Connected StaysOpen alpha_client (server_replies ?bad)
            = (RejectsWith e, alpha_client, st')
          \<and> e \<in> {InvalidResponseSize, InsufficientData, InvalidStatusCode}"
    using g
      run_on_rejected_or_unknown_status
        [OF alpha_client_request server_replies_stream [of ?bad] reply_header_valid [OF m(1)]
          m(2), of id "new_Response StatusCode_NameTaken 0 []" StaysOpen]
    by blast
  from a b c show ?thesis by blast
qed

lemma run_unknown_status_example:
  "\<exists>st'. run id Connected StaysOpen alpha_client
            (server_replies [9, 0, 0, 0, 0, 0, 0, 0, 0, 0, 0, 0, 0])
          = (RejectsWith InvalidStatusCode, alpha_client, st')"
proof -
  let ?body = "[9, 0, 0, 0, 0, 0, 0, 0, 0, 0, 0, 0, 0] :: buffer"
  have l: "length ?body \<le> 1048576" "?body \<noteq> []" by simp_all
  have g: "getUint8 ?body 0 \<noteq> StatusCode_OK" "getUint8 ?body 0 \<noteq> StatusCode_NameTaken"
    "getUint8 ?body 0 \<noteq> StatusCode_UnsupportedProto"
    by (simp_all add: getUint8_def subarray_def proto_consts)
  have d: "deserializeResponse id ?body = Inl InvalidStatusCode"
    by (simp add: deserializeResponse_def validateResponse_def new_Response_def getUint8_def
        getUint32_def getBigUint64_def subarray_def be_int_def proto_consts)
  from handshake_reads
    [OF alpha_client_request server_replies_stream [of ?body] reply_header_valid(1) [OF l(1)] _
        reply_header_valid(3,4) [OF l(1)] l(2)]
    reply_header_valid(2) [OF l(1)]
  obtain st1 st2 where
    "sendRequest alpha_client (server_replies ?body) = (Resolved (reply_header ?body), st1)"
    "readN st1 (nat (length' (reply_header ?body))) = (Resolved ?body, st2)"
    by (auto simp: is_u8_def proto_consts)
  with d reply_header_valid(2) [OF l(1)] show ?thesis
    by (auto simp: run_def handleConnection_def proto_consts)
qed


lemma handshakeResponse_reply:
  assumes "validateRequest (new_Request (client_proto c) (client_name c)) = Inr ()"
    and "\<not> ended st" and "script st = map Chunk cs @ rest"
    and "buffered st @ concat cs = Header_wire h @ body"
    and "validateHeader h = Inr ()" and "type h = MessageType_Response"
    and "is_u8 (flags h)" and "length' h = int (length body)" and "body \<noteq> []"
  shows "handshakeResponse dec c st =
           (case deserializeResponse dec body of Inr response \<Rightarrow> Some response | Inl e \<Rightarrow> None)"
proof -
  from assms(6) have "is_u8 (type h)" by (simp add: is_u8_def proto_consts)
  with handshake_reads [OF assms(1-5) _ assms(7-9)] obtain st1 st2 where
    "sendRequest c st = (Resolved h, st1)" "readN st1 (nat (length' h)) = (Resolved body, st2)"
    by blast
  with assms(6) show ?thesis
    by (simp add: handshakeResponse_def)
qed

text \<open>
  C10. A new client has the empty domain. After a call of \<^verbatim>\<open>run()\<close>, whatever the dial,
  the control stream and the session do, \<^verbatim>\<open>getDomain()\<close> returns the domain of the
  Response of the handshake if the call got as far as a Response with status OK, and
  what it returned before the call otherwise: NameTaken, UnsupportedProto and every
  failure leave the field alone, and one call writes it at most once. When the server
  answers with a Response header and a body of the announced length, the Response of
  the handshake is the one the body deserializes to.
\<close>

theorem getDomain_written_on_OK_only:
  "(new_Client options = Inr c0 \<longrightarrow> getDomain c0 = [])
   \<and> (run dec d sess c st = (r, c', st')
      \<longrightarrow> getDomain c' =
          (case handshakeResponse dec c st of
             Some response \<Rightarrow>
               if d = Connected \<and> status response = StatusCode_OK then domain response
               else getDomain c
           | None \<Rightarrow> getDomain c))
   \<and> (validateRequest (new_Request (client_proto c) (client_name c)) = Inr ()
        \<and> \<not> ended st \<and> script st = map Chunk cs @ rest
        \<and> buffered st @ concat cs = Header_wire h @ body
        \<and> validateHeader h = Inr () \<and> type h = MessageType_Response
        \<and> is_u8 (flags h) \<and> length' h = int (length body) \<and> body \<noteq> []
      \<longrightarrow> handshakeResponse dec c st =
          (case deserializeResponse dec body of
             Inr response \<Rightarrow> Some response
           | Inl e \<Rightarrow> None))"
  using new_Client_domain [of options c0] run_domain [of dec d sess c st r c' st']
    handshakeResponse_reply [of c st cs rest h body dec]
  by blast

theorem getDomain_written_on_OK_only_witness:
  "new_Client alpha_options = Inr alpha_client
   \<and> getDomain alpha_client = []
   \<and> getDomain (fst (snd (run id Connected StaysOpen alpha_client
        (server_replies (Response_wire (new_Response StatusCode_OK 3600 alpha_example))))))
       = alpha_example
   \<and> getDomain (fst (snd (run id Connected StaysOpen alpha_client
        (server_replies (Response_wire (new_Response StatusCode_NameTaken 0 []))))))
       = []"
proof -
  let ?ok = "new_Response StatusCode_OK 3600 alpha_example"
  let ?nt = "new_Response StatusCode_NameTaken 0 []"
  have n: "new_Client alpha_options = Inr alpha_client"
    by (simp add: new_Client_def alpha_options_def alpha_client_def proto_consts)
  have l: "length (Response_wire ?ok) \<le> 1048576" "Response_wire ?ok \<noteq> []"
    "length (Response_wire ?nt) \<le> 1048576" "Response_wire ?nt \<noteq> []"
    by (simp_all add: Response_wire_def new_Response_def alpha_example_def)
  have "validateResponse ?ok = Inr ()"
    by (simp add: validateResponse_def new_Response_def alpha_example_def proto_consts)
  then have "roundtripResponse id ?ok = Inr ?ok"
    by (intro roundtripResponse_ok)
      (simp_all add: new_Response_def is_u64_def is_u32_def alpha_example_def)
  then have dok: "deserializeResponse id (Response_wire ?ok) = Inr ?ok"
    using \<open>validateResponse ?ok = Inr ()\<close>
    by (simp add: roundtripResponse_def serializeResponse_wire)
  have dnt: "deserializeResponse id (Response_wire ?nt) = Inr ?nt"
    using deserializeResponse_empty_domain [of id StatusCode_NameTaken 0]
    by (simp add: is_u64_def is_u8_def validateResponse_def new_Response_def proto_consts)
  have s: "status ?ok = StatusCode_OK" "domain ?ok = alpha_example"
    "status ?nt \<noteq> StatusCode_OK" "getDomain alpha_client = []"
    by (simp_all add: new_Response_def getDomain_def alpha_client_def proto_consts)
  obtain r1 c1 st1 where r1: "run id Connected StaysOpen alpha_client
      (server_replies (Response_wire ?ok)) = (r1, c1, st1)"
    by (cases "run id Connected StaysOpen alpha_client (server_replies (Response_wire ?ok))")
      auto
  obtain r2 c2 st2 where r2: "run id Connected StaysOpen alpha_client
      (server_replies (Response_wire ?nt)) = (r2, c2, st2)"
    by (cases "run id Connected StaysOpen alpha_client (server_replies (Response_wire ?nt))")
      auto
  have "getDomain c1 = alpha_example"
    using getDomain_written_on_OK_only
      [of alpha_options alpha_client id Connected StaysOpen alpha_client
        "server_replies (Response_wire ?ok)" r1 c1 st1
        "[Header_wire (reply_header (Response_wire ?ok)), Response_wire ?ok]" "[]"
        "reply_header (Response_wire ?ok)" "Response_wire ?ok"]
      r1 alpha_client_request server_replies_stream [of "Response_wire ?ok"]
      reply_header_valid [OF l(1)] l(2) dok s
    by simp
  moreover have "getDomain c2 = []"
    using getDomain_written_on_OK_only
      [of alpha_options alpha_client id Connected StaysOpen alpha_client
        "server_replies (Response_wire ?nt)" r2 c2 st2
        "[Header_wire (reply_header (Response_wire ?nt)), Response_wire ?nt]" "[]"
        "reply_header (Response_wire ?nt)" "Response_wire ?nt"]
      r2 alpha_client_request server_replies_stream [of "Response_wire ?nt"]
      reply_header_valid [OF l(3)] l(4) dnt s
    by simp
  ultimately show ?thesis using n s r1 r2 by simp
qed

section \<open>The dispatcher and the type of a header\<close>

lemma Header_wire_bytes:
  "Header_wire \<lparr>version = VERSION, type = uint t, flags = uint f, length' = l, reserved = 0\<rparr>
     = [16, t, f] @ be_bytes 8 l @ [0]"
  by (simp add: Header_wire_def VERSION_def del: be_bytes.simps)
    (simp add: numeral_2_eq_2)

lemma deserializeHeader_any_type:
  assumes "0 \<le> l" "l \<le> MAX_PAYLOAD_SIZE"
  shows "deserializeHeader ([16, t, f] @ be_bytes 8 l @ [0])
           = Inr \<lparr>version = VERSION, type = uint t, flags = uint f, length' = l, reserved = 0\<rparr>"
proof -
  let ?h = "\<lparr>version = VERSION, type = uint t, flags = uint f, length' = l, reserved = 0\<rparr>"
  have u: "is_u8 (uint t)" "is_u8 (uint f)"
    using uint_bounded [of t] uint_bounded [of f] by (simp_all add: is_u8_def)
  from assms have v: "validateHeader ?h = Inr ()"
    by (simp add: validateHeader_def)
  have "deserializeHeader (Header_wire ?h) = Inr ?h"
    using v u assms
    by (subst deserializeHeader_wire) (simp_all add: is_u8_def is_u64_def proto_consts)
  then show ?thesis by (simp only: Header_wire_bytes)
qed

lemma onNewStream_dropped:
  assumes l: "0 \<le> l" "l \<le> MAX_PAYLOAD_SIZE"
    and st: "\<not> ended st" "script st = map Chunk cs @ rest"
      "buffered st @ concat cs = [16, t, f] @ be_bytes 8 l @ [0] @ extra"
    and t: "uint t \<noteq> MessageType_Access" "uint t \<noteq> MessageType_Metrics"
      "uint t \<noteq> MessageType_End"
  shows "\<exists>st'. onNewStream c st = (Dropped (uint t), c, st') \<and> closed st'"
proof -
  have n: "12 \<le> length (buffered st) + length (concat cs)"
    using arg_cong [OF st(3), of length] by simp
  have "\<exists>st' cs'. readN st 12 = (Resolved (take 12 (buffered st @ concat cs)), st')
           \<and> \<not> ended st' \<and> script st' = map Chunk cs' @ rest
           \<and> buffered st' @ concat cs' = drop 12 (buffered st @ concat cs)
           \<and> written st' = written st \<and> closed st' = closed st"
    using st n by (intro readN_chunks) simp_all
  then obtain st1 where r: "readN st 12 = (Resolved (take 12 (buffered st @ concat cs)), st1)"
    by blast
  have "take 12 (buffered st @ concat cs) = [16, t, f] @ be_bytes 8 l @ [0]"
    by (simp add: st(3) del: be_bytes.simps)
  with r deserializeHeader_any_type [OF l, of t f] t show ?thesis
    by (simp add: onNewStream_def HEADER_SIZE_def stream_close_def del: be_bytes.simps)
qed

text \<open>
  C9. For every byte \<open>t\<close>, twelve bytes with version \<open>0x10\<close>, type byte \<open>t\<close>, any flags, a
  length of at most \<open>MAX_PAYLOAD_SIZE\<close> and a zero reserved byte deserialize into a Header
  whose type is \<open>t\<close>. When such a header arrives on a new stream and \<open>t\<close> is not Access,
  Metrics or End, the dispatcher closes the stream and does nothing else.
\<close>

theorem type_checked_by_dispatcher_only:
  "(0 \<le> l \<and> l \<le> MAX_PAYLOAD_SIZE
      \<longrightarrow> deserializeHeader ([16, t, f] @ be_bytes 8 l @ [0])
          = Inr \<lparr>version = VERSION, type = uint t, flags = uint f, length' = l, reserved = 0\<rparr>)
   \<and> (0 \<le> l \<and> l \<le> MAX_PAYLOAD_SIZE
        \<and> \<not> ended st \<and> script st = map Chunk cs @ rest
        \<and> buffered st @ concat cs = [16, t, f] @ be_bytes 8 l @ [0] @ extra
        \<and> uint t \<noteq> MessageType_Access \<and> uint t \<noteq> MessageType_Metrics
        \<and> uint t \<noteq> MessageType_End
      \<longrightarrow> (\<exists>st'. onNewStream c st = (Dropped (uint t), c, st') \<and> closed st'))"
  using deserializeHeader_any_type [of l t f] onNewStream_dropped [of l st cs rest t f extra c]
  by blast

theorem type_checked_by_dispatcher_only_witness:
  "deserializeHeader ([16, 119, 0] @ be_bytes 8 0 @ [0])
     = Inr \<lparr>version = VERSION, type = 119, flags = 0, length' = 0, reserved = 0\<rparr>
   \<and> (\<exists>st'. onNewStream alpha_client
              (fresh_stream (map Chunk [[16, 119, 0], be_bytes 8 0 @ [0]]))
            = (Dropped 119, alpha_client, st') \<and> closed st')"
proof -
  have s: "\<not> ended (fresh_stream (map Chunk [[16, 119, 0], be_bytes 8 0 @ [0]]))"
    "script (fresh_stream (map Chunk [[16, 119, 0], be_bytes 8 0 @ [0]]))
       = map Chunk [[16, 119, 0], be_bytes 8 0 @ [0]] @ []"
    "buffered (fresh_stream (map Chunk [[16, 119, 0], be_bytes 8 0 @ [0]]))
        @ concat [[16, 119, 0], be_bytes 8 0 @ [0]]
       = [16, 119, 0] @ be_bytes 8 0 @ [0] @ []"
    by (simp_all add: fresh_stream_def del: be_bytes.simps)
  have t: "uint (119 :: byte) \<noteq> MessageType_Access" "uint (119 :: byte) \<noteq> MessageType_Metrics"
    "uint (119 :: byte) \<noteq> MessageType_End" "(0::int) \<le> 0" "0 \<le> MAX_PAYLOAD_SIZE"
    by (simp_all add: proto_consts)
  from s t
    type_checked_by_dispatcher_only
      [of 0 119 0 "fresh_stream (map Chunk [[16, 119, 0], be_bytes 8 0 @ [0]])"
          "[[16, 119, 0], be_bytes 8 0 @ [0]]" "[]" "[]" alpha_client]
  show ?thesis by (simp del: be_bytes.simps)
qed

section \<open>The forwarder\<close>

lemma cleanup_done [simp]: "isCleanedUp f \<Longrightarrow> cleanup err f = f"
  by (simp add: cleanup_def)

lemma cleanup_idempotent: "cleanup err' (cleanup err f) = cleanup err f"
  by (cases err) (simp_all add: cleanup_def)

lemma forward_event_after_cleanup:
  assumes "isCleanedUp f"
  shows "isCleanedUp (forward_event ev f)" "settled (forward_event ev f) = settled f"
    "cleanups (forward_event ev f) = cleanups f"
    "inbound f = Closed \<Longrightarrow> inbound (forward_event ev f) = Closed"
  using assms by (cases ev; simp)+

lemma fold_after_cleanup:
  assumes "isCleanedUp f" "inbound f = Closed"
  shows "isCleanedUp (fold forward_event evs f) \<and> settled (fold forward_event evs f) = settled f
         \<and> cleanups (fold forward_event evs f) = cleanups f
         \<and> inbound (fold forward_event evs f) = Closed"
  using assms
proof (induction evs arbitrary: f)
  case Nil
  then show ?case by simp
next
  case (Cons ev evs)
  from Cons.prems forward_event_after_cleanup [of f ev]
  have "isCleanedUp (forward_event ev f)" "inbound (forward_event ev f) = Closed"
    "settled (forward_event ev f) = settled f" "cleanups (forward_event ev f) = cleanups f"
    by simp_all
  with Cons.IH [of "forward_event ev f"] show ?case by simp
qed

lemma forward_event_first:
  assumes "\<not> isCleanedUp f" "terminating ev"
  shows "isCleanedUp (forward_event ev f)" "settled (forward_event ev f) = event_result ev"
    "cleanups (forward_event ev f) = Suc (cleanups f)" "inbound (forward_event ev f) = Closed"
  using assms by (cases ev; simp add: cleanup_def terminating_def)+

lemma fold_before_cleanup:
  assumes "\<not> isCleanedUp f"
  shows "(case first_terminating evs of
            None \<Rightarrow> \<not> isCleanedUp (fold forward_event evs f)
                    \<and> settled (fold forward_event evs f) = settled f
                    \<and> cleanups (fold forward_event evs f) = cleanups f
          | Some ev \<Rightarrow> isCleanedUp (fold forward_event evs f)
                    \<and> settled (fold forward_event evs f) = event_result ev
                    \<and> cleanups (fold forward_event evs f) = Suc (cleanups f)
                    \<and> inbound (fold forward_event evs f) = Closed)"
  using assms
proof (induction evs arbitrary: f)
  case Nil
  then show ?case by simp
next
  case (Cons ev evs)
  show ?case
  proof (cases "terminating ev")
    case True
    with Cons.prems forward_event_first [of f ev]
      fold_after_cleanup [of "forward_event ev f" evs]
    show ?thesis by simp
  next
    case False
    then have "ev = LocalConnect" by (simp add: terminating_def)
    with Cons.prems Cons.IH [of "f\<lparr>piped := True\<rparr>"] show ?thesis
      by (auto simp: terminating_def split: option.splits)
  qed
qed

lemma forwardStream_cleanup_once:
  "cleanups (forwardStream evs) = (case first_terminating evs of None \<Rightarrow> 0 | Some ev \<Rightarrow> 1)"
  "settled (forwardStream evs)
     = (case first_terminating evs of None \<Rightarrow> Pending | Some ev \<Rightarrow> event_result ev)"
  "first_terminating evs \<noteq> None \<Longrightarrow> inbound (forwardStream evs) = Closed"
  using fold_before_cleanup [of forward_start evs]
  by (auto simp: forwardStream_def forward_start_def split: option.splits)

lemma fold_local_untouched:
  assumes "set evs \<subseteq> {LocalConnect, StreamClosed} \<union> range StreamErrored"
  shows "localConn (fold forward_event evs f) = localConn f"
  using assms
proof (induction evs arbitrary: f)
  case Nil
  show ?case by simp
next
  case (Cons ev evs)
  from Cons.prems have "localConn (forward_event ev f) = localConn f"
    by (cases ev) (auto simp: cleanup_def)
  with Cons.prems Cons.IH [of "forward_event ev f"] show ?case by simp
qed

lemma forwardStream_local_stays_open:
  "set evs \<subseteq> {LocalConnect, StreamClosed} \<union> range StreamErrored \<Longrightarrow>
   localConn (forwardStream evs) = Open"
  by (simp add: forwardStream_def fold_local_untouched forward_start_def)

text \<open>
  C7. On any of the six events the forwarder is to run \<^verbatim>\<open>cleanup\<close> exactly once and to
  leave both halves of the pair closed. \<^verbatim>\<open>cleanup\<close> does run its body once, closes the
  inbound stream and settles the promise with the result of the first of the six events
  (lemma \<open>forwardStream_cleanup_once\<close>). But it never touches the local connection:
  when the inbound stream reports an error or its closing, the forwarder is done and the
  local connection is still open; when the inbound stream ends, the pipe finishes the
  writing side of the local connection and leaves it half open.
\<close>

theorem forwardStream_leaves_local_connection:
  "forwardStream [LocalConnect, StreamErrored 7]
     = \<lparr>isCleanedUp = True, settled = Rejected (StreamError 7), piped = True, cleanups = 1,
        inbound = Closed, localConn = Open\<rparr>
   \<and> forwardStream [LocalConnect, StreamClosed]
     = \<lparr>isCleanedUp = True, settled = Resolved (), piped = True, cleanups = 1,
        inbound = Closed, localConn = Open\<rparr>
   \<and> forwardStream [LocalConnect, StreamEnded]
     = \<lparr>isCleanedUp = True, settled = Resolved (), piped = True, cleanups = 1,
        inbound = Closed, localConn = HalfOpen\<rparr>"
  by (simp add: forwardStream_def forward_start_def cleanup_def)

lemma forwardStream_later_error_ignored:
  "settled (forwardStream [LocalConnect, StreamEnded, StreamErrored 7]) = Resolved ()"
  by (simp add: forwardStream_def forward_start_def cleanup_def)

end
